theory Spec2Isabelle
  imports Complex_Main
begin

section \<open>Round-lifecycle reconciliation engine of the dice display\<close>

text \<open>
  The engine is the TypeScript module that owns the module-level variables
  \<^verbatim>\<open>gameState\<close>, \<^verbatim>\<open>scheduledStartAt\<close>, \<^verbatim>\<open>scheduledEndAt\<close>, \<^verbatim>\<open>countdownHandle\<close>,
  \<^verbatim>\<open>cancelledUntil\<close>, ... and reacts to server-sent events, snapshot responses, timers and
  visibility changes. Every function below is the source function of the same name with
  the ambient variables passed explicitly as one record.

  Conventions of the embedding:
  \<^item> timestamps and durations are JavaScript numbers holding whole milliseconds: \<open>int\<close>;
    the progress fraction is a quotient: \<open>real\<close>;
  \<^item> a value that may be \<^verbatim>\<open>null\<close> or \<^verbatim>\<open>undefined\<close> is an \<open>option\<close>; a number is
    falsy when it is absent or \<open>0\<close>;
  \<^item> the browser's timer table is the list \<open>pending\<close>: \<^verbatim>\<open>setTimeout\<close>,
    \<^verbatim>\<open>requestAnimationFrame\<close> and \<^verbatim>\<open>setInterval\<close> append an entry with a fresh handle,
    the clear functions delete the entry of a handle;
  \<^item> \<^verbatim>\<open>Date.now()\<close> is the field \<open>dateNow\<close> and \<^verbatim>\<open>document.hidden\<close> the field
    \<open>documentHidden\<close>; one callback runs at one value of both;
  \<^item> a \<^verbatim>\<open>TypeError\<close> raised by reading a property of \<^verbatim>\<open>undefined\<close> is the
    constructor \<open>Threw\<close>, carrying the variables as they are at the throw.
  The 3D scene, the textures, the wall clock widget and the CSS classes other than the
  two overlay flags are not part of the model.
\<close>

subsection \<open>Data\<close>

datatype displayState = Idle | Waiting | Countdown | Rolling | Result

datatype handleMode = Raf | Timeout | Interval

datatype readyState = CONNECTING | OPEN | CLOSED

text \<open>The text of the connection badge; the reconnect notice carries its seconds.\<close>

datatype statusMessage = Literal string | ReconnectingIn int

text \<open>The countdown number: \<^verbatim>\<open>'...'\<close> or \<^verbatim>\<open>String(n)\<close>.\<close>

datatype countdownLabel = Dots | Seconds int

text \<open>The closures handed to the browser's timers.\<close>

datatype callback =
    CountdownTick int string int
  | WaitingFallback
  | ShowResult "int option list"
  | ConnectSSE
  | TimeSyncTick

type_synonym timerKey = "handleMode \<times> nat"

record engine =
  gameState :: displayState
  scheduledStartAt :: "int option"
  scheduledEndAt :: "int option"
  countdownHandle :: "nat option"
  countdownHandleMode :: "handleMode option"
  countdownTotalMs :: "int option"
  cancelledUntil :: "int option"
  waitingStateTimeout :: "nat option"
  isFetchingSnapshot :: bool
  timeSyncInterval :: "nat option"
  eventSource :: "nat option"
  reconnectAttempts :: int
  isConnected :: bool
  serverTimeOffset :: int
  targetValues :: "int option list"
  currentRoundId :: "string option"
  diceTargets :: "int list"
  rollCount :: nat
  connectionText :: statusMessage
  statusText :: string
  countdownText :: countdownLabel
  strokeDashoffset :: real
  stroke :: string
  gameOverlayHidden :: bool
  resultOverlayVisible :: bool
  resultSymbols :: "int list"
  resultLabel :: string
  nextRoundText :: string
  dateNow :: int
  documentHidden :: bool
  pending :: "(timerKey \<times> int \<times> callback) list"
  nextId :: nat
  sources :: "(nat \<times> readyState) list"
  snapshotRequests :: nat

text \<open>How a call ends: normally, or by an uncaught \<^verbatim>\<open>TypeError\<close>.\<close>

datatype completion = Normal engine | Threw engine

fun state_of :: "completion \<Rightarrow> engine" where
  "state_of (Normal s) = s"
| "state_of (Threw s) = s"

fun threw :: "completion \<Rightarrow> bool" where
  "threw (Normal s) = False"
| "threw (Threw s) = True"

subsection \<open>Payloads\<close>

record lastOutcome =
  lo_diceValues :: "int option list"
  lo_roundId :: "string option"

record lastOutcomeEvent =
  loe_diceValues :: "int option list"
  loe_roundId :: "string option"
  loe_serverNow :: int

record roundScheduledEvent =
  rse_startAt :: int
  rse_endAt :: int
  rse_totalMs :: "int option"
  rse_remainingMs :: "int option"
  rse_serverNow :: int

record roundStartedEvent =
  rst_roundId :: string
  rst_startAt :: int
  rst_endAt :: int
  rst_totalMs :: "int option"
  rst_remainingMs :: "int option"
  rst_serverNow :: int

record roundResultEvent =
  rre_roundId :: string
  rre_diceValues :: "int option list"
  rre_serverNow :: int

record roundCancelledEvent =
  rce_serverNow :: int

record roundInfo =
  round_id :: string
  round_startAt :: int
  round_endAt :: int
  round_diceValues :: "int option list option"
  round_totalMs :: "int option"
  round_remainingMs :: "int option"

text \<open>
  \<^verbatim>\<open>SnapshotResponse\<close>: the constructors list, in order, \<^verbatim>\<open>startAt, endAt, totalMs,
  remainingMs, lastOutcome, serverNow\<close>; \<^verbatim>\<open>round, lastOutcome, serverNow\<close>;
  \<^verbatim>\<open>lastOutcome, serverNow\<close>.
\<close>

datatype snapshotResponse =
    SCHEDULED int int "int option" "int option" lastOutcome int
  | STARTED_OR_REVEALED roundInfo lastOutcome int
  | IDLE lastOutcome int

fun snap_serverNow :: "snapshotResponse \<Rightarrow> int" where
  "snap_serverNow (SCHEDULED st en tot rem lo n) = n"
| "snap_serverNow (STARTED_OR_REVEALED r lo n) = n"
| "snap_serverNow (IDLE lo n) = n"

fun snap_lastOutcome :: "snapshotResponse \<Rightarrow> lastOutcome" where
  "snap_lastOutcome (SCHEDULED st en tot rem lo n) = lo"
| "snap_lastOutcome (STARTED_OR_REVEALED r lo n) = lo"
| "snap_lastOutcome (IDLE lo n) = lo"

text \<open>What the awaited \<^verbatim>\<open>fetch\<close> of the snapshot delivers.\<close>

datatype fetchResult = FetchFailed | FetchOk snapshotResponse

subsection \<open>Configuration constants (\<^verbatim>\<open>GameConfig\<close>)\<close>

definition rollDuration :: int where
  "rollDuration = 2500"

definition reconnectDelay :: int where
  "reconnectDelay = 2000"

definition maxReconnectAttempts :: int where
  "maxReconnectAttempts = 10"

subsection \<open>JavaScript helpers\<close>

text \<open>Truthiness of a number that may be \<^verbatim>\<open>null\<close>.\<close>

definition truthy :: "int option \<Rightarrow> bool" where
  "truthy x = (case x of None \<Rightarrow> False | Some v \<Rightarrow> v \<noteq> 0)"

text \<open>\<^verbatim>\<open>a ?? b\<close>.\<close>

fun nullish :: "'a option \<Rightarrow> 'a \<Rightarrow> 'a" where
  "nullish None b = b"
| "nullish (Some a) b = a"

text \<open>\<^verbatim>\<open>v && t < v\<close> for a number \<open>v\<close> that may be \<^verbatim>\<open>null\<close>.\<close>

fun before_limit :: "int \<Rightarrow> int option \<Rightarrow> bool" where
  "before_limit t None = False"
| "before_limit t (Some v) = (v \<noteq> 0 \<and> t < v)"

text \<open>\<^verbatim>\<open>values[i]\<close>: \<^verbatim>\<open>undefined\<close> beyond the end of the array.\<close>

definition js_index :: "int option list \<Rightarrow> nat \<Rightarrow> int option" where
  "js_index vs i = (if i < length vs then vs ! i else None)"

text \<open>\<^verbatim>\<open>values[i] || 1\<close>.\<close>

definition target_of :: "int option list \<Rightarrow> nat \<Rightarrow> int" where
  "target_of vs i = (case js_index vs i of None \<Rightarrow> 1 | Some v \<Rightarrow> if v \<noteq> 0 then v else 1)"

text \<open>The keys of \<^verbatim>\<open>faceRotations\<close> and \<^verbatim>\<open>faceQuaternions\<close>.\<close>

definition is_face :: "int \<Rightarrow> bool" where
  "is_face v = (1 \<le> v \<and> v \<le> 6)"

text \<open>\<^verbatim>\<open>Math.ceil(a / b)\<close> for a positive divisor.\<close>

definition ceil_div :: "int \<Rightarrow> int \<Rightarrow> int" where
  "ceil_div a b = - ((- a) div b)"

subsection \<open>The browser's timers\<close>

definition setTimeout :: "callback \<Rightarrow> int \<Rightarrow> engine \<Rightarrow> nat \<times> engine" where
  "setTimeout cb delay s =
     (nextId s, s\<lparr>pending := pending s @ [((Timeout, nextId s), delay, cb)],
                   nextId := Suc (nextId s)\<rparr>)"

definition requestAnimationFrame :: "callback \<Rightarrow> engine \<Rightarrow> nat \<times> engine" where
  "requestAnimationFrame cb s =
     (nextId s, s\<lparr>pending := pending s @ [((Raf, nextId s), 0, cb)],
                   nextId := Suc (nextId s)\<rparr>)"

definition setInterval :: "callback \<Rightarrow> int \<Rightarrow> engine \<Rightarrow> nat \<times> engine" where
  "setInterval cb delay s =
     (nextId s, s\<lparr>pending := pending s @ [((Interval, nextId s), delay, cb)],
                   nextId := Suc (nextId s)\<rparr>)"

definition drop_key :: "timerKey \<Rightarrow> engine \<Rightarrow> engine" where
  "drop_key k s = s\<lparr>pending := filter (\<lambda>e. fst e \<noteq> k) (pending s)\<rparr>"

definition clearTimeout :: "nat \<Rightarrow> engine \<Rightarrow> engine" where
  "clearTimeout h s = drop_key (Timeout, h) s"

definition cancelAnimationFrame :: "nat \<Rightarrow> engine \<Rightarrow> engine" where
  "cancelAnimationFrame h s = drop_key (Raf, h) s"

definition clearInterval :: "nat \<Rightarrow> engine \<Rightarrow> engine" where
  "clearInterval h s = drop_key (Interval, h) s"

subsection \<open>Server time and connection badge\<close>

definition getServerTime :: "engine \<Rightarrow> int" where
  "getServerTime s = dateNow s + serverTimeOffset s"

definition updateServerTimeOffset :: "int \<Rightarrow> engine \<Rightarrow> engine" where
  "updateServerTimeOffset serverNow s = s\<lparr>serverTimeOffset := serverNow - dateNow s\<rparr>"

text \<open>
  \<^verbatim>\<open>updateConnectionStatus(connected, message?)\<close>; every caller passes a non-empty
  literal or nothing.
\<close>

definition updateConnectionStatus :: "bool \<Rightarrow> statusMessage option \<Rightarrow> engine \<Rightarrow> engine" where
  "updateConnectionStatus conn message s =
     s\<lparr>isConnected := conn,
       connectionText :=
         (case message of
            Some m \<Rightarrow> m
          | None \<Rightarrow> if conn then Literal ''Connected'' else Literal ''Disconnected'')\<rparr>"

subsection \<open>Countdown handle\<close>

definition clearCountdownFrame :: "engine \<Rightarrow> engine" where
  "clearCountdownFrame s =
     (let s1 = (case countdownHandle s of
                  None \<Rightarrow> s
                | Some h \<Rightarrow>
                    if countdownHandleMode s = Some Raf then cancelAnimationFrame h s
                    else clearTimeout h s)
      in s1\<lparr>countdownHandle := None, countdownHandleMode := None\<rparr>)"

definition queueCountdownFrame :: "int \<Rightarrow> string \<Rightarrow> int \<Rightarrow> engine \<Rightarrow> engine" where
  "queueCountdownFrame targetTime label totalDuration s =
     (let s1 = clearCountdownFrame s in
      if documentHidden s1 then
        (let (h, s2) = setTimeout (CountdownTick targetTime label totalDuration) 100
                         (s1\<lparr>countdownHandleMode := Some Timeout\<rparr>)
         in s2\<lparr>countdownHandle := Some h\<rparr>)
      else
        (let (h, s2) = requestAnimationFrame (CountdownTick targetTime label totalDuration)
                         (s1\<lparr>countdownHandleMode := Some Raf\<rparr>)
         in s2\<lparr>countdownHandle := Some h\<rparr>))"

definition clearWaitingTimeout :: "engine \<Rightarrow> engine" where
  "clearWaitingTimeout s =
     (case waitingStateTimeout s of
        None \<Rightarrow> s
      | Some h \<Rightarrow> (clearTimeout h s)\<lparr>waitingStateTimeout := None\<rparr>)"

definition cancelCountdown :: "engine \<Rightarrow> engine" where
  "cancelCountdown s = (clearWaitingTimeout (clearCountdownFrame s))\<lparr>countdownTotalMs := None\<rparr>"

subsection \<open>Result panel and dice\<close>

text \<open>The loop \<^verbatim>\<open>for (let i = 0; i < 6; i++)\<close> of \<^verbatim>\<open>buildResultSymbols\<close>.\<close>

definition buildResultSymbols :: "int option list \<Rightarrow> int list" where
  "buildResultSymbols diceValues =
     List.map_filter
       (\<lambda>i. case js_index diceValues i of
               None \<Rightarrow> None
             | Some v \<Rightarrow> if 1 \<le> v \<and> v \<le> 6 then Some v else None)
       [0, 1, 2, 3, 4, 5]"

definition showLastOutcome :: "int option list \<Rightarrow> engine \<Rightarrow> engine" where
  "showLastOutcome diceValues s =
     s\<lparr>gameState := Result,
       gameOverlayHidden := True,
       resultSymbols := buildResultSymbols diceValues,
       resultLabel := ''Last Result'',
       resultOverlayVisible := True,
       nextRoundText := ''Waiting for next round...''\<rparr>"

definition showResult :: "int option list \<Rightarrow> engine \<Rightarrow> engine" where
  "showResult diceValues s =
     s\<lparr>gameState := Result,
       resultSymbols := buildResultSymbols diceValues,
       resultLabel := ''Round Result'',
       resultOverlayVisible := True,
       nextRoundText := ''Waiting for next round...''\<rparr>"

text \<open>
  The \<^verbatim>\<open>dice.forEach\<close> of \<^verbatim>\<open>updateDiceToValues\<close>, from die \<open>i\<close> on: the die's target
  is stored, then \<^verbatim>\<open>die.quaternion.copy(faceQuaternions[targetValue])\<close> reads a
  property of \<^verbatim>\<open>undefined\<close> when the target is not a key of the table, which ends the
  loop with a \<^verbatim>\<open>TypeError\<close>. The flag of the result says whether that happened.
\<close>

fun set_targets :: "int option list \<Rightarrow> nat \<Rightarrow> int list \<Rightarrow> int list \<times> bool" where
  "set_targets vs i [] = ([], False)"
| "set_targets vs i (d # ds) =
     (if is_face (target_of vs i)
      then (let (r, t) = set_targets vs (Suc i) ds in (target_of vs i # r, t))
      else (target_of vs i # ds, True))"

definition updateDiceToValues :: "int option list \<Rightarrow> engine \<Rightarrow> completion" where
  "updateDiceToValues vs s =
     (let (ts, t) = set_targets vs 0 (diceTargets s) in
      if t then Threw (s\<lparr>diceTargets := ts\<rparr>)
      else Normal (s\<lparr>diceTargets := ts, targetValues := vs\<rparr>))"

text \<open>
  \<^verbatim>\<open>rollAllDice\<close>: \<^verbatim>\<open>rollDie\<close> reads \<^verbatim>\<open>faceRotations[targetValue].x\<close>, a
  \<^verbatim>\<open>TypeError\<close> for a target that is no face. The animation itself is not modelled.
\<close>

definition rollAllDice :: "engine \<Rightarrow> completion" where
  "rollAllDice s =
     (let s1 = s\<lparr>rollCount := Suc (rollCount s)\<rparr> in
      if list_all is_face (diceTargets s1) then Normal s1 else Threw s1)"

definition startRolling :: "int option list \<Rightarrow> engine \<Rightarrow> completion" where
  "startRolling diceValues s =
     (let s1 = clearWaitingTimeout (cancelCountdown s);
          s2 = s1\<lparr>gameState := Rolling, gameOverlayHidden := True,
                  resultOverlayVisible := False\<rparr>;
          s3 = s2\<lparr>diceTargets := map (target_of diceValues) [0..<length (diceTargets s2)]\<rparr>
      in case rollAllDice s3 of
           Threw s4 \<Rightarrow> Threw s4
         | Normal s4 \<Rightarrow>
             Normal (snd (setTimeout (ShowResult diceValues)
                            (rollDuration + int (length (diceTargets s4)) * 100 + 500) s4)))"

subsection \<open>Waiting state\<close>

text \<open>\<^verbatim>\<open>scheduledEndAt && getServerTime() < scheduledEndAt\<close>.\<close>

definition activeRound :: "engine \<Rightarrow> bool" where
  "activeRound s = before_limit (getServerTime s) (scheduledEndAt s)"

text \<open>\<^verbatim>\<open>cancelledUntil && getServerTime() < cancelledUntil\<close>.\<close>

definition inCancelledWindow :: "engine \<Rightarrow> bool" where
  "inCancelledWindow s = before_limit (getServerTime s) (cancelledUntil s)"

definition showWaitingState :: "string \<Rightarrow> engine \<Rightarrow> engine" where
  "showWaitingState message s =
     (let s1 = clearWaitingTimeout s;
          s2 = s1\<lparr>gameState := Waiting, gameOverlayHidden := False,
                  resultOverlayVisible := False, countdownTotalMs := None,
                  strokeDashoffset := 0, stroke := ''#4ade80'', countdownText := Dots,
                  statusText := message\<rparr>
      in if activeRound s2 then s2
         else (let (h, s3) = setTimeout WaitingFallback 2000 s2
               in s3\<lparr>waitingStateTimeout := Some h\<rparr>))"

text \<open>The closure that \<^verbatim>\<open>showWaitingState\<close> hands to \<^verbatim>\<open>setTimeout\<close>.\<close>

definition waitingFallback :: "engine \<Rightarrow> engine" where
  "waitingFallback s =
     (let s1 = s\<lparr>waitingStateTimeout := None\<rparr> in
      if gameState s1 = Waiting \<and> \<not> activeRound s1
      then showLastOutcome (targetValues s1) (s1\<lparr>gameOverlayHidden := True\<rparr>)
      else s1)"

subsection \<open>Countdown\<close>

definition countdown_remaining :: "int \<Rightarrow> int \<Rightarrow> int" where
  "countdown_remaining targetTime now = max 0 (targetTime - now)"

definition countdown_duration :: "int option \<Rightarrow> int \<Rightarrow> int \<Rightarrow> int" where
  "countdown_duration totalDuration targetTime now =
     (let baseDuration = nullish totalDuration (targetTime - now)
      in max 1 (max baseDuration (countdown_remaining targetTime now)))"

definition countdown_progress :: "int option \<Rightarrow> int \<Rightarrow> int \<Rightarrow> real" where
  "countdown_progress totalDuration targetTime now =
     1 - real_of_int (countdown_remaining targetTime now)
           / real_of_int (countdown_duration totalDuration targetTime now)"

definition stroke_colour :: "real \<Rightarrow> string" where
  "stroke_colour remainingRatio =
     (if remainingRatio > 0.5 then ''#4ade80''
      else if remainingRatio > 0.25 then ''#facc15''
      else ''#ef4444'')"

definition animateCountdownToTime :: "int \<Rightarrow> string \<Rightarrow> int option \<Rightarrow> engine \<Rightarrow> engine" where
  "animateCountdownToTime targetTime label totalDuration s =
     (let now = getServerTime s;
          remaining = countdown_remaining targetTime now;
          duration = countdown_duration totalDuration targetTime now;
          progress = countdown_progress totalDuration targetTime now;
          secondsLeft = ceil_div remaining 1000;
          s1 = s\<lparr>strokeDashoffset := 283 * progress,
                 countdownText := Seconds (max 0 secondsLeft),
                 stroke := stroke_colour (real_of_int remaining / real_of_int duration),
                 statusText := (if secondsLeft \<le> 3 \<and> secondsLeft > 0 then ''Get ready...''
                                else label)\<rparr>
      in if remaining > 0 then queueCountdownFrame targetTime label duration s1
         else (let s2 = clearCountdownFrame s1 in
               if gameState s2 = Countdown then showWaitingState ''Waiting for result...'' s2
               else s2))"

definition startScheduledCountdown :: "int option \<Rightarrow> int option \<Rightarrow> engine \<Rightarrow> engine" where
  "startScheduledCountdown totalMs remainingMs s =
     (case scheduledStartAt s of
        None \<Rightarrow> s
      | Some startAt \<Rightarrow>
          if startAt = 0 then s
          else if inCancelledWindow s then showWaitingState ''Waiting for next round...'' s
          else
            (let remaining = nullish remainingMs (max 0 (startAt - getServerTime s));
                 total = max 1 (nullish totalMs (nullish (countdownTotalMs s) remaining));
                 targetTime = getServerTime s + remaining;
                 s1 = s\<lparr>countdownTotalMs := Some total, gameState := Countdown,
                        gameOverlayHidden := False, resultOverlayVisible := False,
                        statusText := ''Round starting soon...''\<rparr>
             in animateCountdownToTime targetTime ''Round starting in'' (Some total) s1))"

definition startRoundCountdown :: "int option \<Rightarrow> int option \<Rightarrow> engine \<Rightarrow> engine" where
  "startRoundCountdown totalMs remainingMs s =
     (case scheduledEndAt s of
        None \<Rightarrow> s
      | Some endAt \<Rightarrow>
          if endAt = 0 then s
          else if inCancelledWindow s then showWaitingState ''Waiting for next round...'' s
          else
            (let s0 = clearCountdownFrame s;
                 remaining = nullish remainingMs (max 0 (endAt - getServerTime s0));
                 total = max 1 (nullish totalMs (nullish (countdownTotalMs s0) remaining));
                 targetTime = getServerTime s0 + remaining;
                 s1 = s0\<lparr>countdownTotalMs := Some total, gameState := Countdown,
                         gameOverlayHidden := False, resultOverlayVisible := False,
                         statusText := ''Rolling soon...''\<rparr>
             in animateCountdownToTime targetTime ''Result in'' (Some total) s1))"

subsection \<open>Event stream: connecting and reconnecting\<close>

text \<open>
  \<open>sources\<close> holds the \<^verbatim>\<open>readyState\<close> of every \<^verbatim>\<open>EventSource\<close> object created so
  far; the variable \<^verbatim>\<open>eventSource\<close> refers to the latest one.
\<close>

definition set_readyState :: "nat \<Rightarrow> readyState \<Rightarrow> engine \<Rightarrow> engine" where
  "set_readyState i r s =
     s\<lparr>sources := map (\<lambda>e. if fst e = i then (i, r) else e) (sources s)\<rparr>"

definition connectSSE :: "engine \<Rightarrow> engine" where
  "connectSSE s =
     (let s1 = updateConnectionStatus False (Some (Literal ''Connecting...'')) s in
      s1\<lparr>eventSource := Some (nextId s1),
         sources := sources s1 @ [(nextId s1, CONNECTING)],
         nextId := Suc (nextId s1)\<rparr>)"

definition reconnect :: "engine \<Rightarrow> engine" where
  "reconnect s =
     (let s1 = (case eventSource s of None \<Rightarrow> s | Some i \<Rightarrow> set_readyState i CLOSED s)
      in connectSSE (s1\<lparr>reconnectAttempts := 0\<rparr>))"

definition scheduleReconnect :: "engine \<Rightarrow> engine" where
  "scheduleReconnect s =
     (if reconnectAttempts s \<ge> maxReconnectAttempts
      then updateConnectionStatus False (Some (Literal ''Connection failed'')) s
      else
        (let s1 = s\<lparr>reconnectAttempts := reconnectAttempts s + 1\<rparr>;
             delay = reconnectDelay * min (reconnectAttempts s1) 5;
             s2 = updateConnectionStatus False (Some (ReconnectingIn (ceil_div delay 1000))) s1
         in snd (setTimeout ConnectSSE delay s2)))"

text \<open>
  \<^verbatim>\<open>fetchSnapshotAndSync\<close> up to its first \<^verbatim>\<open>await\<close>: the guard, the flag and the
  request. \<open>snapshotRequests\<close> counts the requests that have not settled yet.
\<close>

definition fetchSnapshotAndSync :: "engine \<Rightarrow> engine" where
  "fetchSnapshotAndSync s =
     (if isFetchingSnapshot s then s
      else s\<lparr>isFetchingSnapshot := True, snapshotRequests := Suc (snapshotRequests s)\<rparr>)"

definition startPeriodicTimeSync :: "engine \<Rightarrow> engine" where
  "startPeriodicTimeSync s =
     (let s1 = (case timeSyncInterval s of None \<Rightarrow> s | Some h \<Rightarrow> clearInterval h s);
          (h, s2) = setInterval TimeSyncTick 30000 s1
      in s2\<lparr>timeSyncInterval := Some h\<rparr>)"

text \<open>\<^verbatim>\<open>eventSource.onopen\<close> and \<^verbatim>\<open>eventSource.onerror\<close>.\<close>

definition on_open :: "engine \<Rightarrow> engine" where
  "on_open s =
     startPeriodicTimeSync
       (fetchSnapshotAndSync (updateConnectionStatus True None (s\<lparr>reconnectAttempts := 0\<rparr>)))"

definition currentSourceClosed :: "engine \<Rightarrow> bool" where
  "currentSourceClosed s =
     (case eventSource s of
        None \<Rightarrow> False
      | Some i \<Rightarrow> map_of (sources s) i = Some CLOSED)"

definition on_error :: "engine \<Rightarrow> engine" where
  "on_error s =
     (let s1 = updateConnectionStatus False (Some (Literal ''Connection lost'')) s in
      if currentSourceClosed s1 then scheduleReconnect s1 else s1)"

subsection \<open>Listeners of the named events\<close>

text \<open>The payload is \<open>None\<close> when \<^verbatim>\<open>JSON.parse\<close> throws: the listener logs and returns.\<close>

definition on_lastOutcome :: "lastOutcomeEvent option \<Rightarrow> engine \<Rightarrow> completion" where
  "on_lastOutcome ev s =
     (case ev of
        None \<Rightarrow> Normal s
      | Some d \<Rightarrow>
          (let s1 = updateServerTimeOffset (loe_serverNow d) s;
               s2 = s1\<lparr>targetValues := loe_diceValues d, currentRoundId := loe_roundId d\<rparr>
           in case updateDiceToValues (loe_diceValues d) s2 of
                Threw s3 \<Rightarrow> Threw s3
              | Normal s3 \<Rightarrow>
                  if gameState s3 = Idle
                     \<or> (gameState s3 = Waiting \<and> \<not> truthy (scheduledEndAt s3))
                  then Normal (showLastOutcome (loe_diceValues d) s3)
                  else Normal s3))"

definition on_roundScheduled :: "roundScheduledEvent option \<Rightarrow> engine \<Rightarrow> engine" where
  "on_roundScheduled ev s =
     (case ev of
        None \<Rightarrow> s
      | Some d \<Rightarrow>
          (let s1 = updateServerTimeOffset (rse_serverNow d) s;
               s2 = s1\<lparr>cancelledUntil := None,
                       scheduledStartAt := Some (rse_startAt d),
                       scheduledEndAt := Some (rse_endAt d)\<rparr>
           in startScheduledCountdown (rse_totalMs d) (rse_remainingMs d) s2))"

definition on_roundStarted :: "roundStartedEvent option \<Rightarrow> engine \<Rightarrow> engine" where
  "on_roundStarted ev s =
     (case ev of
        None \<Rightarrow> s
      | Some d \<Rightarrow>
          (let s1 = updateServerTimeOffset (rst_serverNow d) s;
               s2 = s1\<lparr>cancelledUntil := None,
                       currentRoundId := Some (rst_roundId d),
                       scheduledStartAt := Some (rst_startAt d),
                       scheduledEndAt := Some (rst_endAt d)\<rparr>
           in startRoundCountdown (rst_totalMs d) (rst_remainingMs d) (cancelCountdown s2)))"

definition on_roundResult :: "roundResultEvent option \<Rightarrow> engine \<Rightarrow> completion" where
  "on_roundResult ev s =
     (case ev of
        None \<Rightarrow> Normal s
      | Some d \<Rightarrow>
          (let s1 = updateServerTimeOffset (rre_serverNow d) s;
               s2 = s1\<lparr>targetValues := rre_diceValues d,
                       currentRoundId := Some (rre_roundId d)\<rparr>
           in startRolling (rre_diceValues d) (cancelCountdown s2)))"

definition cancellation_horizon :: "engine \<Rightarrow> int" where
  "cancellation_horizon s =
     nullish (scheduledEndAt s) (nullish (scheduledStartAt s) (getServerTime s + 30000))"

definition on_roundCancelled :: "roundCancelledEvent option \<Rightarrow> engine \<Rightarrow> engine" where
  "on_roundCancelled ev s =
     (case ev of
        None \<Rightarrow> s
      | Some d \<Rightarrow>
          (let s1 = updateServerTimeOffset (rce_serverNow d) s;
               s2 = s1\<lparr>cancelledUntil := Some (cancellation_horizon s1)\<rparr>
           in showWaitingState ''Waiting for next round...'' (cancelCountdown s2)))"

subsection \<open>Snapshot reconciliation\<close>

text \<open>\<^verbatim>\<open>cancelledUntil && now < cancelledUntil\<close>, with \<^verbatim>\<open>now = data.serverNow\<close>.\<close>

definition snapshotInCancelledWindow :: "int \<Rightarrow> engine \<Rightarrow> bool" where
  "snapshotInCancelledWindow now s = before_limit now (cancelledUntil s)"

text \<open>The three branches on \<^verbatim>\<open>data.state\<close>.\<close>

fun syncRound :: "snapshotResponse \<Rightarrow> engine \<Rightarrow> completion" where
  "syncRound (SCHEDULED startAt endAt totalMs remainingMs0 lo now) s =
     (if snapshotInCancelledWindow now s
      then Normal (showWaitingState ''Waiting for next round...'' (cancelCountdown s))
      else
        (let s1 = s\<lparr>scheduledStartAt := Some startAt, scheduledEndAt := Some endAt\<rparr>;
             remainingMs = nullish remainingMs0 (max 0 (startAt - now))
         in if now \<ge> endAt then Normal (showLastOutcome (targetValues s1) s1)
            else if now \<ge> startAt then
              Normal (startRoundCountdown
                        (Some (nullish totalMs (endAt - startAt)))
                        (Some (max 0 (endAt - now))) s1)
            else
              Normal (startScheduledCountdown
                        (Some (nullish totalMs remainingMs))
                        (Some remainingMs) s1)))"
| "syncRound (STARTED_OR_REVEALED r lo now) s =
     (if snapshotInCancelledWindow now s
      then Normal (showWaitingState ''Round cancelled'' (cancelCountdown s))
      else
        (let s1 = s\<lparr>scheduledStartAt := Some (round_startAt r),
                     scheduledEndAt := Some (round_endAt r),
                     currentRoundId := Some (round_id r)\<rparr>
         in case round_diceValues r of
              Some dv \<Rightarrow>
                if length dv = 0
                then Normal (showWaitingState ''Waiting for next round...'' (cancelCountdown s1))
                else
                  (case updateDiceToValues dv (s1\<lparr>targetValues := dv\<rparr>) of
                     Threw s2 \<Rightarrow> Threw s2
                   | Normal s2 \<Rightarrow>
                       if now \<ge> round_endAt r then Normal (showResult (targetValues s2) s2)
                       else startRolling (targetValues s2) s2)
            | None \<Rightarrow>
                if now < round_endAt r then
                  Normal (startRoundCountdown
                            (Some (nullish (round_totalMs r) (round_endAt r - round_startAt r)))
                            (Some (nullish (round_remainingMs r) (max 0 (round_endAt r - now))))
                            s1)
                else Normal (showWaitingState ''Waiting for result...'' s1)))"
| "syncRound (IDLE lo now) s = Normal (showLastOutcome (targetValues s) s)"

text \<open>The body of the \<^verbatim>\<open>try\<close> once the response is decoded.\<close>

definition applySnapshot :: "snapshotResponse \<Rightarrow> engine \<Rightarrow> completion" where
  "applySnapshot d s =
     (let s1 = updateServerTimeOffset (snap_serverNow d) s;
          s2 = s1\<lparr>targetValues := lo_diceValues (snap_lastOutcome d),
                  currentRoundId := lo_roundId (snap_lastOutcome d)\<rparr>
      in case updateDiceToValues (targetValues s2) s2 of
           Threw s3 \<Rightarrow> Threw s3
         | Normal s3 \<Rightarrow> syncRound d s3)"

text \<open>
  \<^verbatim>\<open>fetchSnapshotAndSync\<close> from its first \<^verbatim>\<open>await\<close> on: a failed fetch and a
  \<^verbatim>\<open>TypeError\<close> of the body are caught and logged, and \<^verbatim>\<open>finally\<close> clears the flag.
\<close>

definition snapshotSettled :: "fetchResult \<Rightarrow> engine \<Rightarrow> engine" where
  "snapshotSettled r s =
     (let s1 = (case r of FetchFailed \<Rightarrow> s | FetchOk d \<Rightarrow> state_of (applySnapshot d s))
      in s1\<lparr>isFetchingSnapshot := False, snapshotRequests := snapshotRequests s1 - 1\<rparr>)"

definition onVisibilityChange :: "engine \<Rightarrow> engine" where
  "onVisibilityChange s =
     (if \<not> documentHidden s then fetchSnapshotAndSync s else clearCountdownFrame s)"

subsection \<open>The event loop\<close>

datatype event =
    SseOpen nat
  | SseError nat bool
  | LastOutcomeMsg nat "lastOutcomeEvent option"
  | RoundScheduledMsg nat "roundScheduledEvent option"
  | RoundStartedMsg nat "roundStartedEvent option"
  | RoundResultMsg nat "roundResultEvent option"
  | RoundCancelledMsg nat "roundCancelledEvent option"
  | TimerFired timerKey
  | SnapshotSettled fetchResult
  | TimeSyncSettled "int option"
  | VisibilityChanged bool
  | ManualReconnect

definition runCallback :: "callback \<Rightarrow> engine \<Rightarrow> engine" where
  "runCallback cb s =
     (case cb of
        CountdownTick targetTime label totalDuration \<Rightarrow>
          animateCountdownToTime targetTime label (Some totalDuration) s
      | WaitingFallback \<Rightarrow> waitingFallback s
      | ShowResult diceValues \<Rightarrow> showResult diceValues s
      | ConnectSSE \<Rightarrow> connectSSE s
      | TimeSyncTick \<Rightarrow> s)"

text \<open>A one-shot timer leaves the table when it fires; an interval stays.\<close>

definition fireTimer :: "timerKey \<Rightarrow> engine \<Rightarrow> engine" where
  "fireTimer k s =
     (case find (\<lambda>e. fst e = k) (pending s) of
        None \<Rightarrow> s
      | Some e \<Rightarrow> runCallback (snd (snd e)) (if fst k = Interval then s else drop_key k s))"

definition sourceOpen :: "nat \<Rightarrow> engine \<Rightarrow> bool" where
  "sourceOpen i s = (map_of (sources s) i = Some OPEN)"

text \<open>
  What the browser may deliver in a state: an event of a source that is not closed, a
  timer that is pending, the settlement of an outstanding request.
\<close>

fun enabled :: "event \<Rightarrow> engine \<Rightarrow> bool" where
  "enabled (SseOpen i) s = (map_of (sources s) i = Some CONNECTING)"
| "enabled (SseError i fatal) s =
     (map_of (sources s) i = Some CONNECTING \<or> map_of (sources s) i = Some OPEN)"
| "enabled (LastOutcomeMsg i ev) s = sourceOpen i s"
| "enabled (RoundScheduledMsg i ev) s = sourceOpen i s"
| "enabled (RoundStartedMsg i ev) s = sourceOpen i s"
| "enabled (RoundResultMsg i ev) s = sourceOpen i s"
| "enabled (RoundCancelledMsg i ev) s = sourceOpen i s"
| "enabled (TimerFired k) s = (find (\<lambda>e. fst e = k) (pending s) \<noteq> None)"
| "enabled (SnapshotSettled r) s = (snapshotRequests s > 0)"
| "enabled (TimeSyncSettled n) s = True"
| "enabled (VisibilityChanged h) s = True"
| "enabled ManualReconnect s = True"

fun handle :: "event \<Rightarrow> engine \<Rightarrow> engine" where
  "handle (SseOpen i) s = on_open (set_readyState i OPEN s)"
| "handle (SseError i fatal) s =
     on_error (set_readyState i (if fatal then CLOSED else CONNECTING) s)"
| "handle (LastOutcomeMsg i ev) s = state_of (on_lastOutcome ev s)"
| "handle (RoundScheduledMsg i ev) s = on_roundScheduled ev s"
| "handle (RoundStartedMsg i ev) s = on_roundStarted ev s"
| "handle (RoundResultMsg i ev) s = state_of (on_roundResult ev s)"
| "handle (RoundCancelledMsg i ev) s = on_roundCancelled ev s"
| "handle (TimerFired k) s = fireTimer k s"
| "handle (SnapshotSettled r) s = snapshotSettled r s"
| "handle (TimeSyncSettled n) s =
     (case n of None \<Rightarrow> s | Some serverNow \<Rightarrow> updateServerTimeOffset serverNow s)"
| "handle (VisibilityChanged h) s = onVisibilityChange (s\<lparr>documentHidden := h\<rparr>)"
| "handle ManualReconnect s = reconnect s"

text \<open>One turn of the event loop at local time \<open>t\<close>.\<close>

definition step :: "int \<times> event \<Rightarrow> engine \<Rightarrow> engine" where
  "step te s =
     (let s1 = s\<lparr>dateNow := fst te\<rparr> in
      if enabled (snd te) s1 then handle (snd te) s1 else s1)"

fun run :: "(int \<times> event) list \<Rightarrow> engine \<Rightarrow> engine" where
  "run [] s = s"
| "run (te # tes) s = run tes (step te s)"

text \<open>
  The variables when \<^verbatim>\<open>init\<close> has built the six dice and armed the first
  \<^verbatim>\<open>connectSSE\<close>; the texts of the page before any update are left empty.
\<close>

definition initial :: engine where
  "initial =
     \<lparr>gameState = Idle, scheduledStartAt = None, scheduledEndAt = None,
      countdownHandle = None, countdownHandleMode = None, countdownTotalMs = None,
      cancelledUntil = None, waitingStateTimeout = None, isFetchingSnapshot = False,
      timeSyncInterval = None, eventSource = None, reconnectAttempts = 0,
      isConnected = False, serverTimeOffset = 0,
      targetValues = [Some 1, Some 2, Some 3, Some 4, Some 5, Some 6],
      currentRoundId = None, diceTargets = [1, 2, 3, 4, 5, 6], rollCount = 0,
      connectionText = Literal [], statusText = [], countdownText = Dots,
      strokeDashoffset = 0, stroke = [], gameOverlayHidden = False,
      resultOverlayVisible = False, resultSymbols = [], resultLabel = [],
      nextRoundText = [], dateNow = 0, documentHidden = False,
      pending = [((Timeout, 0), 500, ConnectSSE)], nextId = 1, sources = [],
      snapshotRequests = 0\<rparr>"

subsection \<open>Views and invariants used in the statements\<close>

text \<open>
  The variables of the transport and of the snapshot guard; no function of the round
  state machine writes them.
\<close>

definition transportView ::
  "engine \<Rightarrow> bool \<times> nat \<times> int \<times> (nat \<times> readyState) list \<times> statusMessage \<times> nat option \<times> bool"
where
  "transportView s =
     (isFetchingSnapshot s, snapshotRequests s, reconnectAttempts s, sources s,
      connectionText s, eventSource s, isConnected s)"

text \<open>The flag \<^verbatim>\<open>isFetchingSnapshot\<close> is set exactly while one request is outstanding.\<close>

definition fetch_ok :: "engine \<Rightarrow> bool" where
  "fetch_ok s =
     (snapshotRequests s \<le> 1 \<and> (isFetchingSnapshot s \<longleftrightarrow> snapshotRequests s = 1))"

text \<open>Example inputs: the first connection opens; a round is scheduled at server time 0.\<close>

definition opened_trace :: "(int \<times> event) list" where
  "opened_trace = [(500, TimerFired (Timeout, 0)), (600, SseOpen 1)]"

definition scheduled_5000_8000 :: roundScheduledEvent where
  "scheduled_5000_8000 =
     \<lparr>rse_startAt = 5000, rse_endAt = 8000, rse_totalMs = None, rse_remainingMs = None,
      rse_serverNow = 0\<rparr>"

definition scheduled_trace :: "(int \<times> event) list" where
  "scheduled_trace = opened_trace @ [(600, RoundScheduledMsg 1 (Some scheduled_5000_8000))]"

text \<open>Example inputs: a cancellation that arrives after the scheduled window has ended.\<close>

definition cancelled_at_10000 :: roundCancelledEvent where
  "cancelled_at_10000 = \<lparr>rce_serverNow = 10000\<rparr>"

definition late_cancel_trace :: "(int \<times> event) list" where
  "late_cancel_trace = scheduled_trace @ [(10600, RoundCancelledMsg 1 (Some cancelled_at_10000))]"

text \<open>Example input: the start countdown's frame callback fires at server time 5000.\<close>

definition start_expiry_trace :: "(int \<times> event) list" where
  "start_expiry_trace = scheduled_trace @ [(5600, TimerFired (Raf, 3))]"

text \<open>Example payloads with dice values.\<close>

definition outcome_654321 :: lastOutcomeEvent where
  "outcome_654321 =
     \<lparr>loe_diceValues = [Some 6, Some 5, Some 4, Some 3, Some 2, Some 1],
      loe_roundId = Some ''r7'', loe_serverNow = 1000\<rparr>"

definition dice_733333 :: "int option list" where
  "dice_733333 = [Some 7, Some 3, Some 3, Some 3, Some 3, Some 3]"

definition dice_short :: "int option list" where
  "dice_short = [Some 4, Some 0, None]"

text \<open>
  What the page shows: the display state with its texts, the progress ring, the two
  overlays and the result panel.
\<close>

definition display ::
  "engine \<Rightarrow> displayState \<times> string \<times> countdownLabel \<times> real \<times> string \<times> bool \<times> bool \<times> int list \<times> string \<times> string"
where
  "display s =
     (gameState s, statusText s, countdownText s, strokeDashoffset s, stroke s,
      gameOverlayHidden s, resultOverlayVisible s, resultSymbols s, resultLabel s,
      nextRoundText s)"

text \<open>
  The variables with the timer bookkeeping blanked. No function of the state machine
  lets a handle or the timer table decide anything but the table itself, so every other
  variable of a result can be read off the blanked result.
\<close>

definition erase :: "engine \<Rightarrow> engine" where
  "erase s = s\<lparr>countdownHandle := None, countdownHandleMode := None, waitingStateTimeout := None,
      pending := [], nextId := 0\<rparr>"

text \<open>
  The countdown callbacks in the browser's table, and the discipline of the handles:
  handles are below \<open>nextId\<close>, no two entries share a handle, every pending countdown
  callback is the one \<^verbatim>\<open>countdownHandle\<close> and \<^verbatim>\<open>countdownHandleMode\<close> refer to, and none
  is referred to by \<^verbatim>\<open>waitingStateTimeout\<close>.
\<close>

fun is_tick :: "callback \<Rightarrow> bool" where
  "is_tick (CountdownTick T l d) = True"
| "is_tick cb = False"

definition countdown_ticks :: "engine \<Rightarrow> callback list" where
  "countdown_ticks s = filter is_tick (map (\<lambda>e. snd (snd e)) (pending s))"

fun key_of :: "nat option \<Rightarrow> handleMode option \<Rightarrow> timerKey option" where
  "key_of None m = None"
| "key_of (Some h) m = Some (if m = Some Raf then Raf else Timeout, h)"

definition countdownKey :: "engine \<Rightarrow> timerKey option" where
  "countdownKey s = key_of (countdownHandle s) (countdownHandleMode s)"

fun handle_below :: "nat option \<Rightarrow> nat \<Rightarrow> bool" where
  "handle_below None n = True"
| "handle_below (Some h) n = (h < n)"

definition timers_ok :: "engine \<Rightarrow> bool" where
  "timers_ok s =
     (list_all (\<lambda>e. snd (fst e) < nextId s) (pending s)
      \<and> handle_below (waitingStateTimeout s) (nextId s)
      \<and> list_all (\<lambda>e. is_tick (snd (snd e)) \<longrightarrow>
                     countdownKey s = Some (fst e) \<and> waitingStateTimeout s \<noteq> Some (snd (fst e)))
           (pending s)
      \<and> distinct (map fst (pending s)))"

text \<open>
  Example inputs: the round of the example is cancelled at server time 1000, then a new
  round is announced at server time 2000; payloads of snapshots.
\<close>

definition cancelled_at_1000 :: roundCancelledEvent where
  "cancelled_at_1000 = \<lparr>rce_serverNow = 1000\<rparr>"

definition cancelled_trace :: "(int \<times> event) list" where
  "cancelled_trace = scheduled_trace @ [(1600, RoundCancelledMsg 1 (Some cancelled_at_1000))]"

definition rescheduled_6000_9000 :: roundScheduledEvent where
  "rescheduled_6000_9000 =
     \<lparr>rse_startAt = 6000, rse_endAt = 9000, rse_totalMs = None, rse_remainingMs = None,
      rse_serverNow = 2000\<rparr>"

definition outcome_123456 :: lastOutcome where
  "outcome_123456 =
     \<lparr>lo_diceValues = [Some 1, Some 2, Some 3, Some 4, Some 5, Some 6], lo_roundId = None\<rparr>"

definition cancelled_round :: roundInfo where
  "cancelled_round =
     \<lparr>round_id = ''r9'', round_startAt = 5000, round_endAt = 8000,
      round_diceValues = Some [], round_totalMs = None, round_remainingMs = None\<rparr>"

definition scheduled_snapshot :: snapshotResponse where
  "scheduled_snapshot = SCHEDULED 5000 8000 None None outcome_123456 0"

text \<open>
  The terminal state of the transport: the attempts are used up, the badge says so, every
  \<^verbatim>\<open>EventSource\<close> is closed and no timer is armed to call \<^verbatim>\<open>connectSSE\<close>.
\<close>

definition no_reconnect_armed :: "engine \<Rightarrow> bool" where
  "no_reconnect_armed s = list_all (\<lambda>e. snd (snd e) \<noteq> ConnectSSE) (pending s)"

definition connection_failed :: "engine \<Rightarrow> bool" where
  "connection_failed s =
     (maxReconnectAttempts \<le> reconnectAttempts s
      \<and> connectionText s = Literal ''Connection failed''
      \<and> \<not> isConnected s
      \<and> list_all (\<lambda>e. snd e = CLOSED) (sources s)
      \<and> no_reconnect_armed s)"


text \<open>
  Every pending timer that calls \<^verbatim>\<open>connectSSE\<close> has its key in \<open>K\<close>.
\<close>

definition reconnects_within :: "timerKey set \<Rightarrow> engine \<Rightarrow> bool" where
  "reconnects_within K s =
     list_all (\<lambda>e. snd (snd e) = ConnectSSE \<longrightarrow> fst e \<in> K) (pending s)"

text \<open>
  One live link: only the current \<^verbatim>\<open>EventSource\<close> may be other than closed, at most one
  timer is armed to call \<^verbatim>\<open>connectSSE\<close> and then every \<^verbatim>\<open>EventSource\<close> is closed, and
  the badge "Connection failed" is shown in the terminal state only.
\<close>

definition single_link :: "engine \<Rightarrow> bool" where
  "single_link s =
     (list_all (\<lambda>e. snd e = CLOSED \<or> eventSource s = Some (fst e)) (sources s)
      \<and> (\<exists>n. reconnects_within {(Timeout, n)} s)
      \<and> (no_reconnect_armed s \<or> list_all (\<lambda>e. snd e = CLOSED) (sources s))
      \<and> (connectionText s = Literal ''Connection failed'' \<longrightarrow> connection_failed s))"




section \<open>Properties\<close>

subsection \<open>Frame lemmas: the round state machine leaves the transport alone\<close>

lemma nullish_case: "nullish x b = (case x of None \<Rightarrow> b | Some a \<Rightarrow> a)"
  by (cases x) simp_all

lemmas timer_defs = setTimeout_def requestAnimationFrame_def setInterval_def drop_key_def
  clearTimeout_def cancelAnimationFrame_def clearInterval_def

lemma tv_update [simp]:
  "transportView (s\<lparr>countdownTotalMs := a\<rparr>) = transportView s"
  "transportView (s\<lparr>gameState := b\<rparr>) = transportView s"
  "transportView (s\<lparr>countdownHandle := c\<rparr>) = transportView s"
  "transportView (s\<lparr>countdownHandleMode := d\<rparr>) = transportView s"
  "transportView (s\<lparr>waitingStateTimeout := e\<rparr>) = transportView s"
  "transportView (s\<lparr>statusText := f\<rparr>) = transportView s"
  "transportView (s\<lparr>gameOverlayHidden := g\<rparr>) = transportView s"
  "transportView (s\<lparr>resultOverlayVisible := h\<rparr>) = transportView s"
  "transportView (s\<lparr>strokeDashoffset := i\<rparr>) = transportView s"
  "transportView (s\<lparr>stroke := j\<rparr>) = transportView s"
  "transportView (s\<lparr>countdownText := k\<rparr>) = transportView s"
  "transportView (s\<lparr>scheduledStartAt := l\<rparr>) = transportView s"
  "transportView (s\<lparr>scheduledEndAt := m\<rparr>) = transportView s"
  "transportView (s\<lparr>cancelledUntil := n\<rparr>) = transportView s"
  "transportView (s\<lparr>targetValues := p\<rparr>) = transportView s"
  "transportView (s\<lparr>currentRoundId := q\<rparr>) = transportView s"
  "transportView (s\<lparr>diceTargets := r\<rparr>) = transportView s"
  "transportView (s\<lparr>rollCount := t\<rparr>) = transportView s"
  "transportView (s\<lparr>serverTimeOffset := u\<rparr>) = transportView s"
  "transportView (s\<lparr>resultSymbols := v\<rparr>) = transportView s"
  "transportView (s\<lparr>resultLabel := w\<rparr>) = transportView s"
  "transportView (s\<lparr>nextRoundText := x\<rparr>) = transportView s"
  "transportView (s\<lparr>pending := y\<rparr>) = transportView s"
  "transportView (s\<lparr>nextId := z\<rparr>) = transportView s"
  "transportView (s\<lparr>dateNow := a'\<rparr>) = transportView s"
  "transportView (s\<lparr>documentHidden := b'\<rparr>) = transportView s"
  "transportView (s\<lparr>timeSyncInterval := c'\<rparr>) = transportView s"
  by (simp_all add: transportView_def)

lemma tv_clearCountdownFrame [simp]: "transportView (clearCountdownFrame s) = transportView s"
  by (simp add: clearCountdownFrame_def timer_defs Let_def split: option.splits)

lemma tv_clearWaitingTimeout [simp]: "transportView (clearWaitingTimeout s) = transportView s"
  by (simp add: clearWaitingTimeout_def timer_defs split: option.splits)

lemma tv_setTimeout [simp]: "transportView (snd (setTimeout cb d s)) = transportView s"
  by (simp add: setTimeout_def)

lemma tv_requestAnimationFrame [simp]:
  "transportView (snd (requestAnimationFrame cb s)) = transportView s"
  by (simp add: requestAnimationFrame_def)

lemma tv_cancelCountdown [simp]: "transportView (cancelCountdown s) = transportView s"
  by (simp add: cancelCountdown_def)

lemma tv_showWaitingState [simp]: "transportView (showWaitingState m s) = transportView s"
  by (simp add: showWaitingState_def Let_def split_beta)

lemma tv_queueCountdownFrame [simp]:
  "transportView (queueCountdownFrame t l d s) = transportView s"
  by (simp add: queueCountdownFrame_def Let_def split_beta)

lemma tv_animateCountdownToTime [simp]:
  "transportView (animateCountdownToTime t l d s) = transportView s"
  by (simp add: animateCountdownToTime_def Let_def)

lemma tv_startScheduledCountdown [simp]:
  "transportView (startScheduledCountdown a b s) = transportView s"
  by (simp add: startScheduledCountdown_def Let_def split: option.splits)

lemma tv_startRoundCountdown [simp]:
  "transportView (startRoundCountdown a b s) = transportView s"
  by (simp add: startRoundCountdown_def Let_def split: option.splits)

lemma tv_showLastOutcome [simp]: "transportView (showLastOutcome a s) = transportView s"
  by (simp add: showLastOutcome_def)

lemma tv_showResult [simp]: "transportView (showResult a s) = transportView s"
  by (simp add: showResult_def)

lemma tv_waitingFallback [simp]: "transportView (waitingFallback s) = transportView s"
  by (simp add: waitingFallback_def Let_def)

lemma tv_updateDiceToValues [simp]:
  "transportView (state_of (updateDiceToValues vs s)) = transportView s"
  by (simp add: updateDiceToValues_def split_beta)

lemma tv_startRolling [simp]: "transportView (state_of (startRolling vs s)) = transportView s"
  by (simp add: startRolling_def rollAllDice_def Let_def)

lemma tv_syncRound [simp]: "transportView (state_of (syncRound d s)) = transportView s"
proof (cases d)
  case (SCHEDULED st en tot rem lo now)
  then show ?thesis by (simp add: Let_def)
next
  case (STARTED_OR_REVEALED r lo now)
  have a: "transportView (state_of (case updateDiceToValues vs x of
              Threw s2 \<Rightarrow> Threw s2
            | Normal s2 \<Rightarrow>
                if now \<ge> round_endAt r then Normal (showResult (targetValues s2) s2)
                else startRolling (targetValues s2) s2)) = transportView x" for vs x
  proof -
    have "transportView (state_of (updateDiceToValues vs x)) = transportView x" by simp
    then show ?thesis by (cases "updateDiceToValues vs x") simp_all
  qed
  show ?thesis using STARTED_OR_REVEALED
    by (simp add: Let_def a split: option.splits)
next
  case (IDLE lo now)
  then show ?thesis by simp
qed

lemma tv_applySnapshot [simp]: "transportView (state_of (applySnapshot d s)) = transportView s"
proof -
  define s2 where "s2 = (updateServerTimeOffset (snap_serverNow d) s)
       \<lparr>targetValues := lo_diceValues (snap_lastOutcome d),
        currentRoundId := lo_roundId (snap_lastOutcome d)\<rparr>"
  have b: "transportView s2 = transportView s"
    by (simp add: s2_def updateServerTimeOffset_def)
  have "transportView (state_of (updateDiceToValues (targetValues s2) s2)) = transportView s2"
    by simp
  then have "transportView (state_of (case updateDiceToValues (targetValues s2) s2 of
           Threw s3 \<Rightarrow> Threw s3
         | Normal s3 \<Rightarrow> syncRound d s3)) = transportView s2"
    by (cases "updateDiceToValues (targetValues s2) s2") simp_all
  moreover have "targetValues s2 = lo_diceValues (snap_lastOutcome d)"
    by (simp add: s2_def)
  ultimately show ?thesis using b
    by (simp add: applySnapshot_def Let_def s2_def [symmetric])
qed

lemma tv_on_lastOutcome [simp]:
  "transportView (state_of (on_lastOutcome ev s)) = transportView s"
proof (cases ev)
  case None
  then show ?thesis by (simp add: on_lastOutcome_def)
next
  case (Some d)
  define s2 where "s2 = (updateServerTimeOffset (loe_serverNow d) s)
       \<lparr>targetValues := loe_diceValues d, currentRoundId := loe_roundId d\<rparr>"
  have b: "transportView s2 = transportView s"
    by (simp add: s2_def updateServerTimeOffset_def)
  have "transportView (state_of (updateDiceToValues (loe_diceValues d) s2)) = transportView s2"
    by simp
  then have "transportView (state_of (on_lastOutcome (Some d) s)) = transportView s2"
    by (cases "updateDiceToValues (loe_diceValues d) s2")
       (simp_all add: on_lastOutcome_def Let_def s2_def [symmetric])
  then show ?thesis using b Some by simp
qed

lemma tv_on_roundScheduled [simp]: "transportView (on_roundScheduled ev s) = transportView s"
  by (cases ev) (simp_all add: on_roundScheduled_def Let_def updateServerTimeOffset_def)

lemma tv_on_roundStarted [simp]: "transportView (on_roundStarted ev s) = transportView s"
  by (cases ev) (simp_all add: on_roundStarted_def Let_def updateServerTimeOffset_def)

lemma tv_on_roundResult [simp]:
  "transportView (state_of (on_roundResult ev s)) = transportView s"
  by (cases ev) (simp_all add: on_roundResult_def Let_def updateServerTimeOffset_def)

lemma tv_on_roundCancelled [simp]: "transportView (on_roundCancelled ev s) = transportView s"
  by (cases ev) (simp_all add: on_roundCancelled_def Let_def updateServerTimeOffset_def)

subsection \<open>The snapshot guard is an invariant of every run\<close>

lemma fetch_ok_cong: "transportView s' = transportView s \<Longrightarrow> fetch_ok s' = fetch_ok s"
  by (simp add: transportView_def fetch_ok_def)

lemma fetch_ok_fetchSnapshotAndSync: "fetch_ok s \<Longrightarrow> fetch_ok (fetchSnapshotAndSync s)"
  by (auto simp add: fetch_ok_def fetchSnapshotAndSync_def)

lemma fetch_ok_snapshotSettled:
  assumes "fetch_ok s"
  shows "fetch_ok (snapshotSettled r s)"
proof -
  have "transportView (case r of FetchFailed \<Rightarrow> s | FetchOk d \<Rightarrow> state_of (applySnapshot d s))
          = transportView s"
    by (cases r) simp_all
  then show ?thesis using assms
    by (simp add: snapshotSettled_def Let_def fetch_ok_def transportView_def)
qed

lemma fetch_ok_connectSSE: "fetch_ok (connectSSE s) = fetch_ok s"
  by (simp add: connectSSE_def updateConnectionStatus_def Let_def fetch_ok_def)

lemma fetch_ok_runCallback: "fetch_ok (runCallback cb s) = fetch_ok s"
proof (cases cb)
  case ConnectSSE
  then show ?thesis by (simp add: runCallback_def fetch_ok_connectSSE)
qed (simp_all add: runCallback_def, (rule fetch_ok_cong, simp)+)

lemma fetch_ok_handle:
  assumes a: "fetch_ok s"
  shows "fetch_ok (handle e s)"
proof (cases e)
  case (SseOpen i)
  then show ?thesis using a
    by (auto simp add: on_open_def startPeriodicTimeSync_def fetchSnapshotAndSync_def
        fetch_ok_def updateConnectionStatus_def set_readyState_def timer_defs Let_def
        split_beta split: option.splits)
next
  case (SseError i fatal)
  then show ?thesis using a
    by (auto simp add: on_error_def scheduleReconnect_def fetch_ok_def
        updateConnectionStatus_def set_readyState_def timer_defs Let_def)
next
  case (LastOutcomeMsg i ev)
  then show ?thesis using a fetch_ok_cong [of "state_of (on_lastOutcome ev s)" s] by simp
next
  case (RoundScheduledMsg i ev)
  then show ?thesis using a fetch_ok_cong [of "on_roundScheduled ev s" s] by simp
next
  case (RoundStartedMsg i ev)
  then show ?thesis using a fetch_ok_cong [of "on_roundStarted ev s" s] by simp
next
  case (RoundResultMsg i ev)
  then show ?thesis using a fetch_ok_cong [of "state_of (on_roundResult ev s)" s] by simp
next
  case (RoundCancelledMsg i ev)
  then show ?thesis using a fetch_ok_cong [of "on_roundCancelled ev s" s] by simp
next
  case (TimerFired k)
  have d: "fetch_ok (drop_key k s) = fetch_ok s"
    by (rule fetch_ok_cong) (simp add: drop_key_def)
  show ?thesis using a TimerFired
    by (simp add: fireTimer_def fetch_ok_runCallback d split: option.splits)
next
  case (SnapshotSettled r)
  then show ?thesis using a by (simp add: fetch_ok_snapshotSettled)
next
  case (TimeSyncSettled n)
  then show ?thesis using a
    by (cases n) (simp_all add: fetch_ok_def updateServerTimeOffset_def)
next
  case (VisibilityChanged h)
  have b: "fetch_ok (s\<lparr>documentHidden := h\<rparr>)" using a by (simp add: fetch_ok_def)
  have c: "fetch_ok (clearCountdownFrame x) = fetch_ok x" for x
    by (rule fetch_ok_cong) simp
  show ?thesis
  proof (cases h)
    case True
    then show ?thesis using VisibilityChanged b c by (simp add: onVisibilityChange_def)
  next
    case False
    then show ?thesis using VisibilityChanged b
      by (simp add: onVisibilityChange_def fetch_ok_fetchSnapshotAndSync)
  qed
next
  case ManualReconnect
  then show ?thesis using a
    by (auto simp add: reconnect_def connectSSE_def fetch_ok_def updateConnectionStatus_def
        set_readyState_def Let_def split: option.splits)
qed

lemma fetch_ok_step:
  assumes "fetch_ok s"
  shows "fetch_ok (step te s)"
proof -
  have "fetch_ok (s\<lparr>dateNow := fst te\<rparr>)" using assms by (simp add: fetch_ok_def)
  then show ?thesis by (simp add: step_def Let_def fetch_ok_handle)
qed

lemma fetch_ok_run: "fetch_ok s \<Longrightarrow> fetch_ok (run tes s)"
  by (induction tes arbitrary: s) (simp_all add: fetch_ok_step)

lemma fetch_ok_initial: "fetch_ok initial"
  by (simp add: fetch_ok_def initial_def)

subsection \<open>Countdown arithmetic\<close>

lemma countdown_duration_pos: "1 \<le> countdown_duration d T t"
  by (simp add: countdown_duration_def Let_def)

lemma countdown_remaining_le_duration: "countdown_remaining T t \<le> countdown_duration d T t"
  by (simp add: countdown_duration_def Let_def)

lemma countdown_remaining_nonneg: "0 \<le> countdown_remaining T t"
  by (simp add: countdown_remaining_def)

lemma countdown_progress_bounds:
  "0 \<le> countdown_progress d T t \<and> countdown_progress d T t \<le> 1"
proof -
  have p: "0 < real_of_int (countdown_duration d T t)"
    using countdown_duration_pos [of d T t] by simp
  have "real_of_int (countdown_remaining T t) \<le> real_of_int (countdown_duration d T t)"
    using countdown_remaining_le_duration [of T t d] by simp
  then have "real_of_int (countdown_remaining T t) / real_of_int (countdown_duration d T t) \<le> 1"
    using p by (simp add: divide_le_eq_1)
  moreover have
    "0 \<le> real_of_int (countdown_remaining T t) / real_of_int (countdown_duration d T t)"
    using p countdown_remaining_nonneg [of T t] by simp
  ultimately show ?thesis by (simp add: countdown_progress_def)
qed

lemma dash_queue: "strokeDashoffset (queueCountdownFrame t l d s) = strokeDashoffset s"
  by (simp add: queueCountdownFrame_def clearCountdownFrame_def timer_defs Let_def split_beta split: option.splits)

lemma dash_animate:
  "strokeDashoffset (animateCountdownToTime T l d s) =
     (if countdown_remaining T (getServerTime s) > 0 \<or> gameState s \<noteq> Countdown
      then 283 * countdown_progress d T (getServerTime s) else 0)"
  by (simp add: animateCountdownToTime_def dash_queue Let_def clearCountdownFrame_def timer_defs
       showWaitingState_def clearWaitingTimeout_def split_beta split: option.splits)

text \<open>
  Claim C7. For a fixed target \<open>T\<close> the remaining time \<open>max 0 (T - serverTime)\<close> does not
  grow as server time advances, the denominator of the progress fraction is at least the
  remaining time and at least 1, and the fraction \<open>1 - remaining / duration\<close> that a tick
  writes to the progress ring (scaled by the circumference 283) lies between 0 and 1.
\<close>

theorem countdown_monotone_and_bounded:
  "countdown_remaining T t = max 0 (T - t)
   \<and> (t1 < t2 \<longrightarrow> countdown_remaining T t2 \<le> countdown_remaining T t1)
   \<and> countdown_remaining T t \<le> countdown_duration d T t
   \<and> 1 \<le> countdown_duration d T t
   \<and> 0 \<le> countdown_progress d T t \<and> countdown_progress d T t \<le> 1
   \<and> 0 \<le> strokeDashoffset (animateCountdownToTime T l d s)
   \<and> strokeDashoffset (animateCountdownToTime T l d s) \<le> 283
   \<and> (0 < countdown_remaining T (getServerTime s) \<longrightarrow>
        strokeDashoffset (animateCountdownToTime T l d s)
          = 283 * countdown_progress d T (getServerTime s))"
proof -
  have m: "t1 < t2 \<longrightarrow> countdown_remaining T t2 \<le> countdown_remaining T t1"
    by (auto simp add: countdown_remaining_def)
  have b: "0 \<le> countdown_progress d T (getServerTime s)" "countdown_progress d T (getServerTime s) \<le> 1"
    using countdown_progress_bounds [of d T "getServerTime s"] by simp_all
  have lo: "0 \<le> strokeDashoffset (animateCountdownToTime T l d s)"
    using b by (simp add: dash_animate)
  have hi: "strokeDashoffset (animateCountdownToTime T l d s) \<le> 283"
    using b by (simp add: dash_animate)
  have eq: "0 < countdown_remaining T (getServerTime s) \<longrightarrow>
        strokeDashoffset (animateCountdownToTime T l d s)
          = 283 * countdown_progress d T (getServerTime s)"
    by (simp add: dash_animate)
  show ?thesis
    using m lo hi eq countdown_progress_bounds [of d T t] countdown_duration_pos [of d T t]
      countdown_remaining_le_duration [of T t d]
    by (simp add: countdown_remaining_def)
qed

text \<open>The statement at target 5000, server times 1000 and 2000, on the initial variables.\<close>

theorem countdown_monotone_and_bounded_witness:
  "(1000::int) < 2000
   \<and> countdown_remaining 5000 2000 \<le> countdown_remaining 5000 1000
   \<and> countdown_remaining 5000 2000 = 3000
   \<and> countdown_progress (Some 5000) 5000 2000 \<le> 1
   \<and> 0 < countdown_remaining 5000 (getServerTime initial)
   \<and> strokeDashoffset (animateCountdownToTime 5000 ''Round starting in'' (Some 5000) initial)
        = 283 * countdown_progress (Some 5000) 5000 (getServerTime initial)"
proof -
  have h1: "(1000::int) < 2000" by simp
  have h2: "0 < countdown_remaining 5000 (getServerTime initial)"
    by (simp add: countdown_remaining_def getServerTime_def initial_def)
  have e: "countdown_remaining 5000 2000 = 3000"
    by (simp add: countdown_remaining_def)
  show ?thesis
    using h1 h2 e
      countdown_monotone_and_bounded [where T = 5000 and t = 2000 and ?t1.0 = 1000
        and ?t2.0 = 2000 and d = "Some 5000" and l = "''Round starting in''" and s = initial]
    by simp
qed

subsection \<open>Single-flight snapshot\<close>

text \<open>
  Claim C8. A call of \<^verbatim>\<open>fetchSnapshotAndSync\<close> while the flag is set changes nothing;
  otherwise it sets the flag and issues one request; when the request settles (response
  applied, fetch failed, or the body threw) the flag is cleared; and in every state that a
  sequence of events reaches from the initial one, at most one snapshot request is
  outstanding, exactly when the flag is set. The periodic time-sync request, which reads
  only \<^verbatim>\<open>serverNow\<close>, is a separate request and is not counted.
\<close>

theorem single_flight_snapshot:
  "(isFetchingSnapshot s \<longrightarrow> fetchSnapshotAndSync s = s)
   \<and> (\<not> isFetchingSnapshot s \<longrightarrow>
         isFetchingSnapshot (fetchSnapshotAndSync s)
         \<and> snapshotRequests (fetchSnapshotAndSync s) = Suc (snapshotRequests s))
   \<and> \<not> isFetchingSnapshot (snapshotSettled r s)
   \<and> snapshotRequests (run tes initial) \<le> 1
   \<and> (isFetchingSnapshot (run tes initial) \<longleftrightarrow> snapshotRequests (run tes initial) = 1)"
proof -
  have "fetch_ok (run tes initial)" by (rule fetch_ok_run) (rule fetch_ok_initial)
  then show ?thesis
    by (simp add: fetch_ok_def fetchSnapshotAndSync_def snapshotSettled_def Let_def)
qed

text \<open>
  After the stream has opened a request is outstanding: a second call is a no-op, a
  visibility change issues no second request.
\<close>

theorem single_flight_snapshot_witness:
  "isFetchingSnapshot (run opened_trace initial)
   \<and> fetchSnapshotAndSync (run opened_trace initial) = run opened_trace initial
   \<and> snapshotRequests (run (opened_trace @ [(700, VisibilityChanged False)]) initial) = 1
   \<and> \<not> isFetchingSnapshot (snapshotSettled FetchFailed (run opened_trace initial))"
proof -
  have h: "isFetchingSnapshot (run opened_trace initial)" by code_simp
  have g: "isFetchingSnapshot (run (opened_trace @ [(700, VisibilityChanged False)]) initial)" by code_simp
  show ?thesis
    using h g single_flight_snapshot [of "run opened_trace initial" FetchFailed
        "opened_trace @ [(700, VisibilityChanged False)]"]
    by simp
qed

subsection \<open>Cancellation horizon\<close>

lemmas low_defs = timer_defs clearCountdownFrame_def queueCountdownFrame_def
  clearWaitingTimeout_def cancelCountdown_def showWaitingState_def updateServerTimeOffset_def
  getServerTime_def activeRound_def

text \<open>
  Against claim C3 as stated: a round is scheduled with \<^verbatim>\<open>endAt = 8000\<close>; the cancellation
  arrives at server time 10000. The horizon is 8000, not \<open>max 8000 (10000 + 30000)\<close>, and
  lies before the server time.
\<close>

theorem horizon_counterexample:
  "scheduledEndAt (run scheduled_trace initial) = Some 8000
   \<and> cancelledUntil (run late_cancel_trace initial) = Some 8000
   \<and> getServerTime (run late_cancel_trace initial) = 10000
   \<and> cancelledUntil (run late_cancel_trace initial)
        \<noteq> Some (max 8000 (getServerTime (run late_cancel_trace initial) + 30000))"
  by code_simp

text \<open>
  Claim C3, amended. On \<^verbatim>\<open>round.cancelled\<close> the horizon is the known \<^verbatim>\<open>endAt\<close>; when
  that is absent the known \<^verbatim>\<open>startAt\<close>; only when both are absent the server time of the
  event plus 30000 ms (the chain \<^verbatim>\<open>scheduledEndAt ?? scheduledStartAt ?? now + 30000\<close>).
  The event leaves the display at Waiting with the text "Waiting for next round...".
\<close>

theorem horizon_is_nullish_chain:
  "cancelledUntil (on_roundCancelled (Some d) s) =
     Some (case scheduledEndAt s of
             Some e \<Rightarrow> e
           | None \<Rightarrow> (case scheduledStartAt s of
                        Some st \<Rightarrow> st
                      | None \<Rightarrow> rce_serverNow d + 30000))
   \<and> getServerTime (on_roundCancelled (Some d) s) = rce_serverNow d
   \<and> gameState (on_roundCancelled (Some d) s) = Waiting
   \<and> statusText (on_roundCancelled (Some d) s) = ''Waiting for next round...''"
  by (simp add: on_roundCancelled_def cancellation_horizon_def low_defs Let_def split_beta
      nullish_case split: option.splits)

text \<open>With no known window the fallback applies; with a window its end is the horizon.\<close>

theorem horizon_is_nullish_chain_witness:
  "cancelledUntil (on_roundCancelled (Some cancelled_at_10000) initial) = Some 40000
   \<and> cancelledUntil (on_roundCancelled (Some cancelled_at_10000) (run scheduled_trace initial))
        = Some 8000"
proof -
  have a: "scheduledEndAt initial = None" "scheduledStartAt initial = None"
    by (simp_all add: initial_def)
  have b: "scheduledEndAt (run scheduled_trace initial) = Some 8000" by code_simp
  show ?thesis
    using a b horizon_is_nullish_chain [of cancelled_at_10000 initial]
      horizon_is_nullish_chain [of cancelled_at_10000 "run scheduled_trace initial"]
    by (simp add: cancelled_at_10000_def)
qed

subsection \<open>Countdown expiry\<close>

text \<open>
  Against claim C2 as stated: the countdown installed by \<^verbatim>\<open>round.scheduled\<close> towards
  \<^verbatim>\<open>startAt = 5000\<close> expires when its frame callback runs at server time 5000, and the
  display moves from Countdown to Waiting with the text "Waiting for result...".
\<close>

theorem start_expiry_counterexample:
  "gameState (run scheduled_trace initial) = Countdown
   \<and> pending (run scheduled_trace initial) =
       [((Interval, 2), 30000, TimeSyncTick),
        ((Raf, 3), 0, CountdownTick 5000 ''Round starting in'' 5000)]
   \<and> scheduledStartAt (run scheduled_trace initial) = Some 5000
   \<and> getServerTime (run start_expiry_trace initial) = 5000
   \<and> gameState (run start_expiry_trace initial) = Waiting
   \<and> statusText (run start_expiry_trace initial) = ''Waiting for result...''"
  by code_simp

text \<open>
  Claim C2, amended. A tick that finds no time remaining while the display is Countdown
  clears the handle and enters Waiting with the text "Waiting for result...", whatever the
  label of the countdown (towards \<^verbatim>\<open>startAt\<close> or towards \<^verbatim>\<open>endAt\<close>); a tick with time
  remaining keeps the display state and re-arms one handle.
\<close>

theorem countdown_expiry_enters_waiting:
  "(gameState s = Countdown \<and> T \<le> getServerTime s \<longrightarrow>
      gameState (animateCountdownToTime T l d s) = Waiting
      \<and> statusText (animateCountdownToTime T l d s) = ''Waiting for result...''
      \<and> countdownHandle (animateCountdownToTime T l d s) = None)
   \<and> (getServerTime s < T \<longrightarrow>
      gameState (animateCountdownToTime T l d s) = gameState s
      \<and> countdownHandle (animateCountdownToTime T l d s) = Some (nextId s))
   \<and> runCallback (CountdownTick T l n) s = animateCountdownToTime T l (Some n) s"
  by (simp add: animateCountdownToTime_def countdown_remaining_def runCallback_def low_defs Let_def split_beta
      split: option.splits)

text \<open>The start countdown of the example, ticking at server times 5000 and 0.\<close>

theorem countdown_expiry_enters_waiting_witness:
  "gameState ((run scheduled_trace initial)\<lparr>dateNow := 5600\<rparr>) = Countdown
   \<and> 5000 \<le> getServerTime ((run scheduled_trace initial)\<lparr>dateNow := 5600\<rparr>)
   \<and> gameState (animateCountdownToTime 5000 ''Round starting in'' (Some 5000)
        ((run scheduled_trace initial)\<lparr>dateNow := 5600\<rparr>)) = Waiting
   \<and> getServerTime (run scheduled_trace initial) < 5000
   \<and> gameState (animateCountdownToTime 5000 ''Round starting in'' (Some 5000)
        (run scheduled_trace initial)) = Countdown"
proof -
  have a: "gameState ((run scheduled_trace initial)\<lparr>dateNow := 5600\<rparr>) = Countdown" by code_simp
  have b: "5000 \<le> getServerTime ((run scheduled_trace initial)\<lparr>dateNow := 5600\<rparr>)" by code_simp
  have c: "getServerTime (run scheduled_trace initial) < 5000" by code_simp
  have d: "gameState (run scheduled_trace initial) = Countdown" by code_simp
  show ?thesis
    using a b c d
      countdown_expiry_enters_waiting [of "(run scheduled_trace initial)\<lparr>dateNow := 5600\<rparr>" 5000
        "''Round starting in''" "Some 5000" 5000]
      countdown_expiry_enters_waiting [of "run scheduled_trace initial" 5000
        "''Round starting in''" "Some 5000" 5000]
    by simp
qed

subsection \<open>Last outcome\<close>

lemma set_targets_length [simp]: "length (fst (set_targets vs i ds)) = length ds"
  by (induction ds arbitrary: i) (simp_all add: split_beta)

text \<open>
  Claim C6. A \<^verbatim>\<open>last.outcome\<close> event always overwrites the stored outcome (target values
  and round id). Received in Countdown or Rolling it leaves the display state as it is; the
  display state changes only if it was Idle, or Waiting with \<^verbatim>\<open>scheduledEndAt\<close> unset,
  and then it becomes Result under the label "Last Result" (which it does in those states
  whenever positioning the dice does not throw).
\<close>

theorem last_outcome_precedence:
  assumes "s' = state_of (on_lastOutcome (Some d) s)"
  shows "targetValues s' = loe_diceValues d \<and> currentRoundId s' = loe_roundId d
   \<and> (gameState s = Countdown \<or> gameState s = Rolling \<longrightarrow> gameState s' = gameState s)
   \<and> (gameState s' \<noteq> gameState s \<longrightarrow>
         (gameState s = Idle \<or> (gameState s = Waiting \<and> \<not> truthy (scheduledEndAt s)))
         \<and> gameState s' = Result \<and> resultLabel s' = ''Last Result'')
   \<and> ((gameState s = Idle \<or> (gameState s = Waiting \<and> \<not> truthy (scheduledEndAt s)))
        \<and> \<not> threw (on_lastOutcome (Some d) s) \<longrightarrow>
         gameState s' = Result \<and> resultLabel s' = ''Last Result''
         \<and> resultSymbols s' = buildResultSymbols (loe_diceValues d))"
  using assms
  by (auto simp add: on_lastOutcome_def updateDiceToValues_def updateServerTimeOffset_def
      showLastOutcome_def Let_def split_beta)

text \<open>The event during the countdown of the example, and on the initial (Idle) variables.\<close>

theorem last_outcome_precedence_witness:
  "gameState (run scheduled_trace initial) = Countdown
   \<and> gameState (state_of (on_lastOutcome (Some outcome_654321) (run scheduled_trace initial)))
        = Countdown
   \<and> targetValues (state_of (on_lastOutcome (Some outcome_654321) (run scheduled_trace initial)))
        = [Some 6, Some 5, Some 4, Some 3, Some 2, Some 1]
   \<and> gameState initial = Idle
   \<and> gameState (state_of (on_lastOutcome (Some outcome_654321) initial)) = Result"
proof -
  have a: "gameState (run scheduled_trace initial) = Countdown" by code_simp
  have b: "gameState initial = Idle" by (simp add: initial_def)
  have c: "\<not> threw (on_lastOutcome (Some outcome_654321) initial)" by code_simp
  show ?thesis
    using a b c
      last_outcome_precedence [of _ outcome_654321 "run scheduled_trace initial", OF refl]
      last_outcome_precedence [of _ outcome_654321 initial, OF refl]
    by (simp add: outcome_654321_def)
qed

subsection \<open>Dice targets and result symbols\<close>

lemma set_targets_faces:
  "(\<forall>j<length ds. is_face (target_of vs (i + j))) \<Longrightarrow>
     set_targets vs i ds = (map (target_of vs) [i..<i + length ds], False)"
proof (induction ds arbitrary: i)
  case Nil
  then show ?case by simp
next
  case (Cons d ds)
  have f: "is_face (target_of vs i)" using Cons.prems [rule_format, of 0] by simp
  have "\<forall>j<length ds. is_face (target_of vs (Suc i + j))"
  proof (intro allI impI)
    fix j assume "j < length ds"
    then show "is_face (target_of vs (Suc i + j))"
      using Cons.prems [rule_format, of "Suc j"] by simp
  qed
  then have "set_targets vs (Suc i) ds = (map (target_of vs) [Suc i..<Suc i + length ds], False)"
    by (rule Cons.IH)
  moreover have "[i..<i + length (d # ds)] = i # [Suc i..<Suc i + length ds]"
  proof -
    have "i < i + length (d # ds)" by simp
    then have "[i..<i + length (d # ds)] = i # [Suc i..<i + length (d # ds)]"
      by (rule upt_conv_Cons)
    moreover have "i + length (d # ds) = Suc i + length ds" by simp
    ultimately show ?thesis by (simp only:)
  qed
  ultimately show ?case using f by (simp only: set_targets.simps if_True Let_def prod.case list.map)
qed

lemma target_of_nonzero: "target_of vs i \<noteq> 0"
  by (simp add: target_of_def split: option.splits)

lemma below_six: "(i::nat) < 6 \<longleftrightarrow> i \<in> set [0, 1, 2, 3, 4, 5]"
  by (simp add: numeral_eq_Suc less_Suc_eq)

lemma diceTargets_startRolling:
  "diceTargets (state_of (startRolling vs s)) = map (target_of vs) [0..<length (diceTargets s)]"
  by (simp add: startRolling_def rollAllDice_def low_defs Let_def split: option.splits)

lemma set_targets_nonzero:
  "0 \<notin> set ds \<Longrightarrow> 0 \<notin> set (fst (set_targets vs i ds))"
  by (induction ds arbitrary: i) (auto simp add: split_beta target_of_nonzero)

lemma map_filter_append:
  "List.map_filter f (xs @ ys) = List.map_filter f xs @ List.map_filter f ys"
  by (simp add: List.map_filter_def)

lemma map_filter_js_index:
  assumes "g None = None"
  shows "List.map_filter (\<lambda>i. g (js_index vs i)) [0..<n] = List.map_filter g (take n vs)"
proof (induction n)
  case 0
  then show ?case by (simp add: List.map_filter_simps)
next
  case (Suc n)
  show ?case
  proof (cases "n < length vs")
    case True
    then have "take (Suc n) vs = take n vs @ [vs ! n]" by (rule take_Suc_conv_app_nth)
    then show ?thesis using Suc True
      by (simp add: map_filter_append js_index_def split: option.splits)
  next
    case False
    then show ?thesis using Suc assms
      by (simp add: map_filter_append js_index_def split: option.splits)
  qed
qed

lemma map_filter_entries:
  "List.map_filter (\<lambda>x. case x of None \<Rightarrow> None | Some v \<Rightarrow> if P v then Some v else None) xs
     = [v. Some v \<leftarrow> xs, P v]"
  by (induction xs) (simp_all add: List.map_filter_simps split: option.splits)

lemma buildResultSymbols_entries:
  "buildResultSymbols vs = [v. Some v \<leftarrow> take 6 vs, 1 \<le> v \<and> v \<le> 6]"
proof -
  have "[0, 1, 2, 3, 4, 5] = [0..<6]" by (simp add: upt_rec)
  then have "buildResultSymbols vs =
      List.map_filter
        (\<lambda>i. (\<lambda>x. case x of None \<Rightarrow> None | Some v \<Rightarrow> if 1 \<le> v \<and> v \<le> 6 then Some v else None)
                (js_index vs i))
        [0..<6]"
    by (simp only: buildResultSymbols_def)
  also have "\<dots> = List.map_filter
      (\<lambda>x. case x of None \<Rightarrow> None | Some v \<Rightarrow> if 1 \<le> v \<and> v \<le> 6 then Some v else None)
      (take 6 vs)"
    by (rule map_filter_js_index) simp
  finally show ?thesis by (simp only: map_filter_entries)
qed

text \<open>
  Against claim C10 as stated: \<^verbatim>\<open>updateDiceToValues\<close> with the array 7,3,3,3,3,3 stores 7
  in the first die and then throws on the missing quaternion, so the second die keeps its
  old target 2 although its entry 3 is truthy.
\<close>

theorem dice_value_defaulting_counterexample:
  "threw (updateDiceToValues dice_733333 initial)
   \<and> diceTargets (state_of (updateDiceToValues dice_733333 initial)) = [7, 2, 3, 4, 5, 6]
   \<and> js_index dice_733333 1 = Some 3
   \<and> diceTargets (state_of (updateDiceToValues dice_733333 initial)) ! 1 \<noteq> 3"
  by code_simp

text \<open>
  Claim C10, amended. \<^verbatim>\<open>startRolling\<close> gives every die \<open>i\<close> the target
  \<^verbatim>\<open>diceValues[i] || 1\<close>, which is the entry when it is truthy and 1 otherwise, for every
  array. \<^verbatim>\<open>updateDiceToValues\<close> does the same, and stores the array, for every array
  whose targets at the dice's indices are faces 1..6 (short arrays and 0 or missing entries
  included: they default to 1). The target \<^verbatim>\<open>diceValues[i] || 1\<close> is never 0, and neither
  function gives a die the target 0 or changes the number of dice. \<^verbatim>\<open>buildResultSymbols\<close>
  renders, in order, one symbol for each of the first six entries with a value in 1..6 and
  nothing for the others.
\<close>

theorem dice_value_defaulting:
  "diceTargets (state_of (startRolling vs s)) = map (target_of vs) [0..<length (diceTargets s)]
   \<and> ((\<forall>i<length (diceTargets s). is_face (target_of vs i)) \<longrightarrow>
        updateDiceToValues vs s =
          Normal (s\<lparr>diceTargets := map (target_of vs) [0..<length (diceTargets s)],
                    targetValues := vs\<rparr>))
   \<and> (if truthy (js_index vs i) then js_index vs i = Some (target_of vs i)
       else target_of vs i = 1)
   \<and> target_of vs i \<noteq> 0
   \<and> 0 \<notin> set (diceTargets (state_of (startRolling vs s)))
   \<and> (0 \<notin> set (diceTargets s) \<longrightarrow>
        0 \<notin> set (diceTargets (state_of (updateDiceToValues vs s))))
   \<and> length (diceTargets (state_of (startRolling vs s))) = length (diceTargets s)
   \<and> length (diceTargets (state_of (updateDiceToValues vs s))) = length (diceTargets s)
   \<and> buildResultSymbols vs = [v. Some v \<leftarrow> take 6 vs, 1 \<le> v \<and> v \<le> 6]"
proof -
  have a: "length (diceTargets (state_of (updateDiceToValues vs s))) = length (diceTargets s)"
    using set_targets_length [of vs 0 "diceTargets s"]
    by (simp add: updateDiceToValues_def split_beta)
  have b: "(\<forall>i<length (diceTargets s). is_face (target_of vs i)) \<longrightarrow>
        updateDiceToValues vs s =
          Normal (s\<lparr>diceTargets := map (target_of vs) [0..<length (diceTargets s)],
                    targetValues := vs\<rparr>)"
    using set_targets_faces [of "diceTargets s" vs 0]
    by (simp add: updateDiceToValues_def)
  have c: "0 \<notin> set (diceTargets s) \<longrightarrow>
        0 \<notin> set (diceTargets (state_of (updateDiceToValues vs s)))"
    using set_targets_nonzero [of "diceTargets s" vs 0]
    by (simp add: updateDiceToValues_def split_beta)
  have d: "if truthy (js_index vs i) then js_index vs i = Some (target_of vs i)
       else target_of vs i = 1"
    by (simp add: target_of_def truthy_def split: option.splits)
  have e: "0 \<notin> set (diceTargets (state_of (startRolling vs s)))"
    by (simp add: diceTargets_startRolling target_of_nonzero image_iff)
  have f: "length (diceTargets (state_of (startRolling vs s))) = length (diceTargets s)"
    by (simp add: diceTargets_startRolling)
  show ?thesis
    by (intro conjI a b c d e f diceTargets_startRolling target_of_nonzero
        buildResultSymbols_entries)
qed

text \<open>A short array with a zero entry, on the six dice of the initial variables.\<close>

theorem dice_value_defaulting_witness:
  "list_all is_face (map (target_of dice_short) [0, 1, 2, 3, 4, 5])
   \<and> length (diceTargets initial) = 6
   \<and> 0 \<notin> set (diceTargets initial)
   \<and> updateDiceToValues dice_short initial
       = Normal (initial\<lparr>diceTargets := [4, 1, 1, 1, 1, 1], targetValues := dice_short\<rparr>)
   \<and> diceTargets (state_of (startRolling dice_short initial)) = [4, 1, 1, 1, 1, 1]
   \<and> 0 \<notin> set (diceTargets (state_of (updateDiceToValues dice_short initial)))
   \<and> truthy (js_index dice_short 0)
   \<and> target_of dice_short 0 = 4
   \<and> \<not> truthy (js_index dice_short 1)
   \<and> target_of dice_short 1 = 1
   \<and> buildResultSymbols dice_short = [4]"
proof -
  have l: "length (diceTargets initial) = 6" by (simp add: initial_def)
  have z: "0 \<notin> set (diceTargets initial)" by (simp add: initial_def)
  have f: "\<forall>i<length (diceTargets initial). is_face (target_of dice_short i)"
    unfolding l below_six
    by (simp add: dice_short_def target_of_def js_index_def is_face_def)
  have m: "map (target_of dice_short) [0..<length (diceTargets initial)] = [4, 1, 1, 1, 1, 1]"
    unfolding l by code_simp
  have t: "truthy (js_index dice_short 0)" "\<not> truthy (js_index dice_short 1)"
    "js_index dice_short 0 = Some 4"
    by code_simp+
  have g: "list_all is_face (map (target_of dice_short) [0, 1, 2, 3, 4, 5])" by code_simp
  have w: "[v. Some v \<leftarrow> take 6 dice_short, 1 \<le> v \<and> v \<le> 6] = [4::int]" by code_simp
  show ?thesis
    using f g l z m t w
      dice_value_defaulting [of dice_short initial 0]
      dice_value_defaulting [of dice_short initial 1]
    by (simp add: is_face_def)
qed

subsection \<open>Reading a result through its blanked copy\<close>

lemma erase_reads [simp]:
  "gameState (erase s) = gameState s"
  "scheduledStartAt (erase s) = scheduledStartAt s"
  "scheduledEndAt (erase s) = scheduledEndAt s"
  "countdownTotalMs (erase s) = countdownTotalMs s"
  "cancelledUntil (erase s) = cancelledUntil s"
  "isFetchingSnapshot (erase s) = isFetchingSnapshot s"
  "timeSyncInterval (erase s) = timeSyncInterval s"
  "eventSource (erase s) = eventSource s"
  "reconnectAttempts (erase s) = reconnectAttempts s"
  "isConnected (erase s) = isConnected s"
  "serverTimeOffset (erase s) = serverTimeOffset s"
  "targetValues (erase s) = targetValues s"
  "currentRoundId (erase s) = currentRoundId s"
  "diceTargets (erase s) = diceTargets s"
  "rollCount (erase s) = rollCount s"
  "connectionText (erase s) = connectionText s"
  "statusText (erase s) = statusText s"
  "countdownText (erase s) = countdownText s"
  "strokeDashoffset (erase s) = strokeDashoffset s"
  "stroke (erase s) = stroke s"
  "gameOverlayHidden (erase s) = gameOverlayHidden s"
  "resultOverlayVisible (erase s) = resultOverlayVisible s"
  "resultSymbols (erase s) = resultSymbols s"
  "resultLabel (erase s) = resultLabel s"
  "nextRoundText (erase s) = nextRoundText s"
  "dateNow (erase s) = dateNow s"
  "documentHidden (erase s) = documentHidden s"
  "sources (erase s) = sources s"
  "snapshotRequests (erase s) = snapshotRequests s"
  "getServerTime (erase s) = getServerTime s"
  by (simp_all add: erase_def getServerTime_def)

lemmas logic_reads = erase_reads [symmetric]

lemma erase_update [simp]:
  "erase (s\<lparr>gameState := v1\<rparr>) = (erase s)\<lparr>gameState := v1\<rparr>"
  "erase (s\<lparr>scheduledStartAt := v2\<rparr>) = (erase s)\<lparr>scheduledStartAt := v2\<rparr>"
  "erase (s\<lparr>scheduledEndAt := v3\<rparr>) = (erase s)\<lparr>scheduledEndAt := v3\<rparr>"
  "erase (s\<lparr>countdownTotalMs := v4\<rparr>) = (erase s)\<lparr>countdownTotalMs := v4\<rparr>"
  "erase (s\<lparr>cancelledUntil := v5\<rparr>) = (erase s)\<lparr>cancelledUntil := v5\<rparr>"
  "erase (s\<lparr>isFetchingSnapshot := v6\<rparr>) = (erase s)\<lparr>isFetchingSnapshot := v6\<rparr>"
  "erase (s\<lparr>timeSyncInterval := v7\<rparr>) = (erase s)\<lparr>timeSyncInterval := v7\<rparr>"
  "erase (s\<lparr>eventSource := v8\<rparr>) = (erase s)\<lparr>eventSource := v8\<rparr>"
  "erase (s\<lparr>reconnectAttempts := v9\<rparr>) = (erase s)\<lparr>reconnectAttempts := v9\<rparr>"
  "erase (s\<lparr>isConnected := v10\<rparr>) = (erase s)\<lparr>isConnected := v10\<rparr>"
  "erase (s\<lparr>serverTimeOffset := v11\<rparr>) = (erase s)\<lparr>serverTimeOffset := v11\<rparr>"
  "erase (s\<lparr>targetValues := v12\<rparr>) = (erase s)\<lparr>targetValues := v12\<rparr>"
  "erase (s\<lparr>currentRoundId := v13\<rparr>) = (erase s)\<lparr>currentRoundId := v13\<rparr>"
  "erase (s\<lparr>diceTargets := v14\<rparr>) = (erase s)\<lparr>diceTargets := v14\<rparr>"
  "erase (s\<lparr>rollCount := v15\<rparr>) = (erase s)\<lparr>rollCount := v15\<rparr>"
  "erase (s\<lparr>connectionText := v16\<rparr>) = (erase s)\<lparr>connectionText := v16\<rparr>"
  "erase (s\<lparr>statusText := v17\<rparr>) = (erase s)\<lparr>statusText := v17\<rparr>"
  "erase (s\<lparr>countdownText := v18\<rparr>) = (erase s)\<lparr>countdownText := v18\<rparr>"
  "erase (s\<lparr>strokeDashoffset := v19\<rparr>) = (erase s)\<lparr>strokeDashoffset := v19\<rparr>"
  "erase (s\<lparr>stroke := v20\<rparr>) = (erase s)\<lparr>stroke := v20\<rparr>"
  "erase (s\<lparr>gameOverlayHidden := v21\<rparr>) = (erase s)\<lparr>gameOverlayHidden := v21\<rparr>"
  "erase (s\<lparr>resultOverlayVisible := v22\<rparr>) = (erase s)\<lparr>resultOverlayVisible := v22\<rparr>"
  "erase (s\<lparr>resultSymbols := v23\<rparr>) = (erase s)\<lparr>resultSymbols := v23\<rparr>"
  "erase (s\<lparr>resultLabel := v24\<rparr>) = (erase s)\<lparr>resultLabel := v24\<rparr>"
  "erase (s\<lparr>nextRoundText := v25\<rparr>) = (erase s)\<lparr>nextRoundText := v25\<rparr>"
  "erase (s\<lparr>dateNow := v26\<rparr>) = (erase s)\<lparr>dateNow := v26\<rparr>"
  "erase (s\<lparr>documentHidden := v27\<rparr>) = (erase s)\<lparr>documentHidden := v27\<rparr>"
  "erase (s\<lparr>sources := v28\<rparr>) = (erase s)\<lparr>sources := v28\<rparr>"
  "erase (s\<lparr>snapshotRequests := v29\<rparr>) = (erase s)\<lparr>snapshotRequests := v29\<rparr>"
  "erase (s\<lparr>countdownHandle := w1\<rparr>) = erase s"
  "erase (s\<lparr>countdownHandleMode := w2\<rparr>) = erase s"
  "erase (s\<lparr>waitingStateTimeout := w3\<rparr>) = erase s"
  "erase (s\<lparr>pending := w4\<rparr>) = erase s"
  "erase (s\<lparr>nextId := w5\<rparr>) = erase s"
  by (simp_all add: erase_def)

lemma erase_timers [simp]:
  "erase (drop_key k s) = erase s"
  "erase (snd (setTimeout cb d s)) = erase s"
  "erase (snd (requestAnimationFrame cb s)) = erase s"
  by (simp_all add: timer_defs)

lemma erase_clearCountdownFrame [simp]: "erase (clearCountdownFrame s) = erase s"
  by (simp add: clearCountdownFrame_def clearTimeout_def cancelAnimationFrame_def Let_def split: option.splits)

lemma erase_clearWaitingTimeout [simp]: "erase (clearWaitingTimeout s) = erase s"
  by (simp add: clearWaitingTimeout_def clearTimeout_def split: option.splits)

lemma erase_cancelCountdown [simp]: "erase (cancelCountdown s) = (erase s)\<lparr>countdownTotalMs := None\<rparr>"
  by (simp add: cancelCountdown_def)

lemma erase_queueCountdownFrame [simp]: "erase (queueCountdownFrame T l d s) = erase s"
  by (simp add: queueCountdownFrame_def Let_def split_beta)

lemma erase_showWaitingState [simp]:
  "erase (showWaitingState m s) =
     (erase s)\<lparr>gameState := Waiting, gameOverlayHidden := False,
                  resultOverlayVisible := False, countdownTotalMs := None,
                  strokeDashoffset := 0, stroke := ''#4ade80'', countdownText := Dots,
                  statusText := m\<rparr>"
  by (simp add: showWaitingState_def Let_def split_beta)

lemmas reads_clearCountdownFrame [simp] = logic_reads [of "clearCountdownFrame s"] for s
lemmas reads_clearWaitingTimeout [simp] = logic_reads [of "clearWaitingTimeout s"] for s
lemmas reads_cancelCountdown [simp] = logic_reads [of "cancelCountdown s"] for s
lemmas reads_queueCountdownFrame [simp] = logic_reads [of "queueCountdownFrame T l d s"] for T l d s
lemmas reads_showWaitingState [simp] = logic_reads [of "showWaitingState m s"] for m s

lemma animate_running:
  "0 < countdown_remaining T (getServerTime s) \<Longrightarrow>
   animateCountdownToTime T l d s =
     queueCountdownFrame T l (countdown_duration d T (getServerTime s))
       (s\<lparr>strokeDashoffset := 283 * countdown_progress d T (getServerTime s),
          countdownText := Seconds (max 0 (ceil_div (countdown_remaining T (getServerTime s)) 1000)),
          stroke := stroke_colour (real_of_int (countdown_remaining T (getServerTime s))
                      / real_of_int (countdown_duration d T (getServerTime s))),
          statusText := (if ceil_div (countdown_remaining T (getServerTime s)) 1000 \<le> 3
                            \<and> ceil_div (countdown_remaining T (getServerTime s)) 1000 > 0
                         then ''Get ready...'' else l)\<rparr>)"
  by (simp add: animateCountdownToTime_def Let_def)

lemma animate_expired:
  "\<not> 0 < countdown_remaining T (getServerTime s) \<Longrightarrow> gameState s = Countdown \<Longrightarrow>
   animateCountdownToTime T l d s =
     showWaitingState ''Waiting for result...''
       (clearCountdownFrame
       (s\<lparr>strokeDashoffset := 283 * countdown_progress d T (getServerTime s),
          countdownText := Seconds (max 0 (ceil_div (countdown_remaining T (getServerTime s)) 1000)),
          stroke := stroke_colour (real_of_int (countdown_remaining T (getServerTime s))
                      / real_of_int (countdown_duration d T (getServerTime s))),
          statusText := (if ceil_div (countdown_remaining T (getServerTime s)) 1000 \<le> 3
                            \<and> ceil_div (countdown_remaining T (getServerTime s)) 1000 > 0
                         then ''Get ready...'' else l)\<rparr>))"
  by (simp add: animateCountdownToTime_def Let_def)

subsection \<open>Discipline of the timer handles\<close>

lemma handle_below_Suc [simp]: "handle_below h n \<Longrightarrow> handle_below h (Suc n)"
  by (cases h) simp_all

lemma ticks_none:
  fixes xs :: "(timerKey \<times> int \<times> callback) list"
  shows "(\<forall>e\<in>set xs. is_tick (snd (snd e)) \<longrightarrow> fst e = k) \<Longrightarrow>
     filter is_tick (map (\<lambda>e. snd (snd e)) (filter (\<lambda>e. fst e \<noteq> k) xs)) = []"
  by (induction xs) auto

lemma ticks_kept:
  fixes xs :: "(timerKey \<times> int \<times> callback) list"
  shows "(\<forall>e\<in>set xs. is_tick (snd (snd e)) \<longrightarrow> fst e \<noteq> k) \<Longrightarrow>
     filter is_tick (map (\<lambda>e. snd (snd e)) (filter (\<lambda>e. fst e \<noteq> k) xs))
       = filter is_tick (map (\<lambda>e. snd (snd e)) xs)"
  by (induction xs) auto

lemma ticks_at_most_one:
  fixes xs :: "(timerKey \<times> int \<times> callback) list"
  shows "distinct (map fst xs) \<Longrightarrow> (\<forall>e\<in>set xs. is_tick (snd (snd e)) \<longrightarrow> fst e = k) \<Longrightarrow>
     length (filter is_tick (map (\<lambda>e. snd (snd e)) xs)) \<le> 1"
proof (induction xs)
  case Nil
  then show ?case by simp
next
  case (Cons x xs)
  show ?case
  proof (cases "is_tick (snd (snd x))")
    case True
    then have kx: "fst x = k" using Cons.prems by simp
    have nk: "fst x \<notin> fst ` set xs" using Cons.prems by simp
    have "\<not> is_tick (snd (snd e))" if "e \<in> set xs" for e
    proof
      assume "is_tick (snd (snd e))"
      then have "fst e = fst x" using Cons.prems that kx by simp
      then show False using nk that by (metis imageI)
    qed
    then have "filter is_tick (map (\<lambda>e. snd (snd e)) xs) = []"
      by (simp add: filter_empty_conv)
    then show ?thesis using True by simp
  next
    case False
    then show ?thesis using Cons by simp
  qed
qed

lemma timers_ok_ticks: "timers_ok s \<Longrightarrow> length (countdown_ticks s) \<le> 1"
proof (cases "countdownKey s")
  case None
  assume "timers_ok s"
  then have "\<forall>e\<in>set (pending s). \<not> is_tick (snd (snd e))"
    using None by (auto simp add: timers_ok_def list_all_iff)
  then have "countdown_ticks s = []"
    by (auto simp add: countdown_ticks_def filter_empty_conv)
  then show ?thesis by simp
next
  case (Some k)
  assume "timers_ok s"
  then show ?thesis using Some ticks_at_most_one [of "pending s" k]
    by (auto simp add: timers_ok_def list_all_iff countdown_ticks_def)
qed

lemma ok_clearCountdownFrame [simp]: "timers_ok s \<Longrightarrow> timers_ok (clearCountdownFrame s)"
  by (auto simp add: timers_ok_def clearCountdownFrame_def countdownKey_def timer_defs Let_def list_all_iff
       distinct_map_filter split: option.splits)

lemma ticks_clearCountdownFrame [simp]:
  "timers_ok s \<Longrightarrow> countdown_ticks (clearCountdownFrame s) = []"
proof (cases "countdownHandle s")
  case None
  assume "timers_ok s"
  then have "\<forall>e\<in>set (pending s). \<not> is_tick (snd (snd e))"
    using None by (auto simp add: timers_ok_def list_all_iff countdownKey_def)
  then show ?thesis using None
    by (auto simp add: countdown_ticks_def clearCountdownFrame_def filter_empty_conv)
next
  case (Some h)
  assume "timers_ok s"
  then have "\<forall>e\<in>set (pending s). is_tick (snd (snd e)) \<longrightarrow>
       fst e = (if countdownHandleMode s = Some Raf then Raf else Timeout, h)"
    using Some by (auto simp add: timers_ok_def list_all_iff countdownKey_def)
  then show ?thesis using Some
      ticks_none [of "pending s" "(if countdownHandleMode s = Some Raf then Raf else Timeout, h)"]
    by (auto simp add: countdown_ticks_def clearCountdownFrame_def timer_defs)
qed

lemma key_clearCountdownFrame [simp]: "countdownKey (clearCountdownFrame s) = None"
  by (simp add: countdownKey_def clearCountdownFrame_def Let_def)

lemma ok_update [simp]:
  "timers_ok (s\<lparr>gameState := v1\<rparr>) = timers_ok s"
  "timers_ok (s\<lparr>scheduledStartAt := v2\<rparr>) = timers_ok s"
  "timers_ok (s\<lparr>scheduledEndAt := v3\<rparr>) = timers_ok s"
  "timers_ok (s\<lparr>countdownTotalMs := v4\<rparr>) = timers_ok s"
  "timers_ok (s\<lparr>cancelledUntil := v5\<rparr>) = timers_ok s"
  "timers_ok (s\<lparr>isFetchingSnapshot := v6\<rparr>) = timers_ok s"
  "timers_ok (s\<lparr>timeSyncInterval := v7\<rparr>) = timers_ok s"
  "timers_ok (s\<lparr>eventSource := v8\<rparr>) = timers_ok s"
  "timers_ok (s\<lparr>reconnectAttempts := v9\<rparr>) = timers_ok s"
  "timers_ok (s\<lparr>isConnected := v10\<rparr>) = timers_ok s"
  "timers_ok (s\<lparr>serverTimeOffset := v11\<rparr>) = timers_ok s"
  "timers_ok (s\<lparr>targetValues := v12\<rparr>) = timers_ok s"
  "timers_ok (s\<lparr>currentRoundId := v13\<rparr>) = timers_ok s"
  "timers_ok (s\<lparr>diceTargets := v14\<rparr>) = timers_ok s"
  "timers_ok (s\<lparr>rollCount := v15\<rparr>) = timers_ok s"
  "timers_ok (s\<lparr>connectionText := v16\<rparr>) = timers_ok s"
  "timers_ok (s\<lparr>statusText := v17\<rparr>) = timers_ok s"
  "timers_ok (s\<lparr>countdownText := v18\<rparr>) = timers_ok s"
  "timers_ok (s\<lparr>strokeDashoffset := v19\<rparr>) = timers_ok s"
  "timers_ok (s\<lparr>stroke := v20\<rparr>) = timers_ok s"
  "timers_ok (s\<lparr>gameOverlayHidden := v21\<rparr>) = timers_ok s"
  "timers_ok (s\<lparr>resultOverlayVisible := v22\<rparr>) = timers_ok s"
  "timers_ok (s\<lparr>resultSymbols := v23\<rparr>) = timers_ok s"
  "timers_ok (s\<lparr>resultLabel := v24\<rparr>) = timers_ok s"
  "timers_ok (s\<lparr>nextRoundText := v25\<rparr>) = timers_ok s"
  "timers_ok (s\<lparr>dateNow := v26\<rparr>) = timers_ok s"
  "timers_ok (s\<lparr>documentHidden := v27\<rparr>) = timers_ok s"
  "timers_ok (s\<lparr>sources := v28\<rparr>) = timers_ok s"
  "timers_ok (s\<lparr>snapshotRequests := v29\<rparr>) = timers_ok s"
  by (simp_all add: timers_ok_def countdownKey_def)

lemma ticks_update [simp]:
  "countdown_ticks (s\<lparr>gameState := v1\<rparr>) = countdown_ticks s"
  "countdown_ticks (s\<lparr>scheduledStartAt := v2\<rparr>) = countdown_ticks s"
  "countdown_ticks (s\<lparr>scheduledEndAt := v3\<rparr>) = countdown_ticks s"
  "countdown_ticks (s\<lparr>countdownTotalMs := v4\<rparr>) = countdown_ticks s"
  "countdown_ticks (s\<lparr>cancelledUntil := v5\<rparr>) = countdown_ticks s"
  "countdown_ticks (s\<lparr>isFetchingSnapshot := v6\<rparr>) = countdown_ticks s"
  "countdown_ticks (s\<lparr>timeSyncInterval := v7\<rparr>) = countdown_ticks s"
  "countdown_ticks (s\<lparr>eventSource := v8\<rparr>) = countdown_ticks s"
  "countdown_ticks (s\<lparr>reconnectAttempts := v9\<rparr>) = countdown_ticks s"
  "countdown_ticks (s\<lparr>isConnected := v10\<rparr>) = countdown_ticks s"
  "countdown_ticks (s\<lparr>serverTimeOffset := v11\<rparr>) = countdown_ticks s"
  "countdown_ticks (s\<lparr>targetValues := v12\<rparr>) = countdown_ticks s"
  "countdown_ticks (s\<lparr>currentRoundId := v13\<rparr>) = countdown_ticks s"
  "countdown_ticks (s\<lparr>diceTargets := v14\<rparr>) = countdown_ticks s"
  "countdown_ticks (s\<lparr>rollCount := v15\<rparr>) = countdown_ticks s"
  "countdown_ticks (s\<lparr>connectionText := v16\<rparr>) = countdown_ticks s"
  "countdown_ticks (s\<lparr>statusText := v17\<rparr>) = countdown_ticks s"
  "countdown_ticks (s\<lparr>countdownText := v18\<rparr>) = countdown_ticks s"
  "countdown_ticks (s\<lparr>strokeDashoffset := v19\<rparr>) = countdown_ticks s"
  "countdown_ticks (s\<lparr>stroke := v20\<rparr>) = countdown_ticks s"
  "countdown_ticks (s\<lparr>gameOverlayHidden := v21\<rparr>) = countdown_ticks s"
  "countdown_ticks (s\<lparr>resultOverlayVisible := v22\<rparr>) = countdown_ticks s"
  "countdown_ticks (s\<lparr>resultSymbols := v23\<rparr>) = countdown_ticks s"
  "countdown_ticks (s\<lparr>resultLabel := v24\<rparr>) = countdown_ticks s"
  "countdown_ticks (s\<lparr>nextRoundText := v25\<rparr>) = countdown_ticks s"
  "countdown_ticks (s\<lparr>dateNow := v26\<rparr>) = countdown_ticks s"
  "countdown_ticks (s\<lparr>documentHidden := v27\<rparr>) = countdown_ticks s"
  "countdown_ticks (s\<lparr>sources := v28\<rparr>) = countdown_ticks s"
  "countdown_ticks (s\<lparr>snapshotRequests := v29\<rparr>) = countdown_ticks s"
  "countdown_ticks (s\<lparr>countdownHandle := v30\<rparr>) = countdown_ticks s"
  "countdown_ticks (s\<lparr>countdownHandleMode := v31\<rparr>) = countdown_ticks s"
  "countdown_ticks (s\<lparr>waitingStateTimeout := v32\<rparr>) = countdown_ticks s"
  "countdown_ticks (s\<lparr>nextId := v33\<rparr>) = countdown_ticks s"
  by (simp_all add: countdown_ticks_def)

lemma ok_clearWaitingTimeout [simp]: "timers_ok s \<Longrightarrow> timers_ok (clearWaitingTimeout s)"
  by (auto simp add: timers_ok_def clearWaitingTimeout_def countdownKey_def timer_defs list_all_iff
       distinct_map_filter split: option.splits)

lemma ticks_clearWaitingTimeout [simp]:
  "timers_ok s \<Longrightarrow> countdown_ticks (clearWaitingTimeout s) = countdown_ticks s"
proof (cases "waitingStateTimeout s")
  case None
  then show ?thesis by (simp add: clearWaitingTimeout_def)
next
  case (Some h)
  assume "timers_ok s"
  then have "\<forall>e\<in>set (pending s). is_tick (snd (snd e)) \<longrightarrow> fst e \<noteq> (Timeout, h)"
    using Some by (auto simp add: timers_ok_def list_all_iff)
  then show ?thesis using Some ticks_kept [of "pending s" "(Timeout, h)"]
    by (simp add: countdown_ticks_def clearWaitingTimeout_def timer_defs)
qed

lemma ok_cancelCountdown [simp]: "timers_ok s \<Longrightarrow> timers_ok (cancelCountdown s)"
  by (simp add: cancelCountdown_def)

lemma ticks_cancelCountdown [simp]: "timers_ok s \<Longrightarrow> countdown_ticks (cancelCountdown s) = []"
  by (simp add: cancelCountdown_def)

lemma ok_queueCountdownFrame [simp]:
  assumes "timers_ok s"
  shows "timers_ok (queueCountdownFrame T l d s)"
proof -
  have c: "timers_ok (clearCountdownFrame s)" using assms by simp
  have t: "countdown_ticks (clearCountdownFrame s) = []" using assms by simp
  then have n: "\<forall>e\<in>set (pending (clearCountdownFrame s)). \<not> is_tick (snd (snd e))"
    by (auto simp add: countdown_ticks_def filter_empty_conv)
  show ?thesis using c n
    by (auto simp add: queueCountdownFrame_def Let_def split_beta setTimeout_def
        requestAnimationFrame_def timers_ok_def countdownKey_def list_all_iff split: option.splits)
qed

lemma ticks_queueCountdownFrame [simp]:
  assumes "timers_ok s"
  shows "countdown_ticks (queueCountdownFrame T l d s) = [CountdownTick T l d]"
proof -
  have t: "countdown_ticks (clearCountdownFrame s) = []" using assms by simp
  then show ?thesis
    by (simp add: queueCountdownFrame_def Let_def split_beta setTimeout_def
        requestAnimationFrame_def countdown_ticks_def)
qed

lemma ok_showWaitingState [simp]:
  assumes "timers_ok s"
  shows "timers_ok (showWaitingState m s)"
proof -
  have c: "timers_ok (clearWaitingTimeout s)" using assms by simp
  have w: "waitingStateTimeout (clearWaitingTimeout s) = None"
    by (simp add: clearWaitingTimeout_def split: option.splits)
  show ?thesis using c w
    by (auto simp add: showWaitingState_def Let_def split_beta setTimeout_def
        timers_ok_def countdownKey_def list_all_iff)
qed

lemma ticks_showWaitingState [simp]:
  "timers_ok s \<Longrightarrow> countdown_ticks (showWaitingState m s) = countdown_ticks s"
proof -
  assume "timers_ok s"
  then have "countdown_ticks (clearWaitingTimeout s) = countdown_ticks s" by simp
  then show ?thesis
    by (simp add: showWaitingState_def Let_def split_beta setTimeout_def countdown_ticks_def)
qed

subsection \<open>Applying a SCHEDULED snapshot twice\<close>

lemma set_targets_idem:
  "set_targets vs i (fst (set_targets vs i ds)) = set_targets vs i ds"
  by (induction ds arbitrary: i) (simp_all add: split_beta)

lemma updateDiceToValues_cases:
  "updateDiceToValues vs s =
     (if snd (set_targets vs 0 (diceTargets s))
      then Threw (s\<lparr>diceTargets := fst (set_targets vs 0 (diceTargets s))\<rparr>)
      else Normal (s\<lparr>diceTargets := fst (set_targets vs 0 (diceTargets s)), targetValues := vs\<rparr>))"
  by (simp add: updateDiceToValues_def split_beta)

lemmas window_alt = activeRound_def inCancelledWindow_def snapshotInCancelledWindow_def

lemmas sync_simps = Let_def display_def getServerTime_def window_alt showLastOutcome_def

lemma sync_scheduled_twice:
  assumes ok: "timers_ok x"
    and time: "dateNow x + serverTimeOffset x = now"
    and d: "d = SCHEDULED startAt endAt totalMs remainingMs lo now"
    and y: "y = state_of (syncRound d x)"
    and z: "z = state_of (syncRound d (y\<lparr>dateNow := t2, serverTimeOffset := now - t2,
              currentRoundId := rid, diceTargets := dt, targetValues := targetValues x\<rparr>))"
  shows "display z = display y \<and> countdown_ticks z = countdown_ticks y \<and> timers_ok y
         \<and> diceTargets y = diceTargets x
         \<and> getServerTime y = now \<and> getServerTime z = now"
proof -
  define rem where "rem = nullish remainingMs (max 0 (startAt - now))"
  consider (A) "snapshotInCancelledWindow now x"
    | (B) "\<not> snapshotInCancelledWindow now x" "endAt \<le> now"
    | (C0) "\<not> snapshotInCancelledWindow now x" "now < endAt" "startAt \<le> now" "endAt = 0"
    | (C) "\<not> snapshotInCancelledWindow now x" "now < endAt" "startAt \<le> now" "endAt \<noteq> 0"
    | (D0) "\<not> snapshotInCancelledWindow now x" "now < endAt" "now < startAt" "startAt = 0"
    | (D1) "\<not> snapshotInCancelledWindow now x" "now < endAt" "now < startAt" "startAt \<noteq> 0" "0 < rem"
    | (D2) "\<not> snapshotInCancelledWindow now x" "now < endAt" "now < startAt" "startAt \<noteq> 0" "\<not> 0 < rem"
    by linarith
  then show ?thesis
  proof cases
    case A
    have y': "y = showWaitingState ''Waiting for next round...'' (cancelCountdown x)"
      using A by (simp add: y d)
    show ?thesis using A ok time unfolding z y' d
      by (simp add: sync_simps)
  next
    case B
    have y': "y = showLastOutcome (targetValues x) (x\<lparr>scheduledStartAt := Some startAt, scheduledEndAt := Some endAt\<rparr>)"
      using B by (simp add: y d Let_def)
    show ?thesis using B ok time unfolding z y' d
      by (simp add: sync_simps)
  next
    case C0
    have y': "y = x\<lparr>scheduledStartAt := Some startAt, scheduledEndAt := Some endAt\<rparr>"
      using C0 by (simp add: y d Let_def startRoundCountdown_def)
    show ?thesis using C0 ok time unfolding z y' d
      by (simp add: sync_simps startRoundCountdown_def)
  next
    case C
    show ?thesis using C ok time unfolding z y d
      by (simp add: sync_simps startRoundCountdown_def animate_running countdown_remaining_def)
  next
    case D0
    have y': "y = x\<lparr>scheduledStartAt := Some startAt, scheduledEndAt := Some endAt\<rparr>"
      using D0 by (simp add: y d Let_def startScheduledCountdown_def)
    show ?thesis using D0 ok time unfolding z y' d
      by (simp add: sync_simps startScheduledCountdown_def)
  next
    case D1
    show ?thesis using D1 ok time unfolding z y d rem_def
      by (simp add: sync_simps startScheduledCountdown_def animate_running countdown_remaining_def)
  next
    case D2
    show ?thesis using D2 ok time unfolding z y d rem_def
      by (simp add: sync_simps startScheduledCountdown_def animate_expired countdown_remaining_def)
  qed
qed

lemma scheduled_twice_under_discipline:
  assumes ok: "timers_ok s"
    and d: "d = SCHEDULED startAt endAt totalMs remainingMs lo now"
    and s1: "s1 = state_of (applySnapshot d s)"
    and s2: "s2 = state_of (applySnapshot d (s1\<lparr>dateNow := t2\<rparr>))"
  shows "display s2 = display s1
         \<and> countdown_ticks s2 = countdown_ticks s1
         \<and> length (countdown_ticks s2) \<le> 1
         \<and> getServerTime s1 = now \<and> getServerTime s2 = now"
proof -
  define vs where "vs = lo_diceValues lo"
  define ts where "ts = fst (set_targets vs 0 (diceTargets s))"
  define s0 where "s0 = (updateServerTimeOffset now s)\<lparr>targetValues := vs, currentRoundId := lo_roundId lo\<rparr>"
  have ok0: "timers_ok s0" using ok by (simp add: s0_def updateServerTimeOffset_def)
  have idem: "set_targets vs 0 ts = set_targets vs 0 (diceTargets s)"
    unfolding ts_def by (rule set_targets_idem)
  have sn: "snap_serverNow d = now" "snap_lastOutcome d = lo" by (simp_all add: d)
  show ?thesis
  proof (cases "snd (set_targets vs 0 (diceTargets s))")
    case True
    have a: "s1 = s0\<lparr>diceTargets := ts\<rparr>"
      using True
      by (simp add: s1 sn applySnapshot_def Let_def updateDiceToValues_cases s0_def vs_def ts_def
          updateServerTimeOffset_def)
    have b: "s2 = s1\<lparr>dateNow := t2, serverTimeOffset := now - t2, targetValues := vs,
                     currentRoundId := lo_roundId lo, diceTargets := ts\<rparr>"
      using True idem unfolding s2 a
      by (simp add: sn applySnapshot_def Let_def updateDiceToValues_cases s0_def
          updateServerTimeOffset_def vs_def [symmetric] ts_def [symmetric])
    have "timers_ok s2" using ok0 by (simp add: a b)
    then have "length (countdown_ticks s2) \<le> 1" by (rule timers_ok_ticks)
    then show ?thesis
      by (simp add: b display_def getServerTime_def a s0_def updateServerTimeOffset_def)
  next
    case False
    define x where "x = s0\<lparr>diceTargets := ts, targetValues := vs\<rparr>"
    have okx: "timers_ok x" using ok0 by (simp add: x_def)
    have tx: "dateNow x + serverTimeOffset x = now"
      by (simp add: x_def s0_def updateServerTimeOffset_def)
    have a: "s1 = state_of (syncRound d x)"
      using False
      by (simp add: s1 sn applySnapshot_def Let_def updateDiceToValues_cases s0_def vs_def ts_def
          updateServerTimeOffset_def x_def)
    define z where "z = state_of (syncRound d (s1\<lparr>dateNow := t2, serverTimeOffset := now - t2,
              currentRoundId := lo_roundId lo, diceTargets := ts, targetValues := targetValues x\<rparr>))"
    have tw: "display z = display s1 \<and> countdown_ticks z = countdown_ticks s1 \<and> timers_ok s1
         \<and> diceTargets s1 = diceTargets x
         \<and> getServerTime s1 = now \<and> getServerTime z = now"
      using okx tx d a z_def by (rule sync_scheduled_twice)
    then have dt: "diceTargets s1 = ts" by (simp add: x_def)
    have b: "s2 = z"
      using False idem dt unfolding s2 z_def
      by (simp add: sn applySnapshot_def Let_def updateDiceToValues_cases
          updateServerTimeOffset_def x_def vs_def [symmetric] ts_def [symmetric])
    have "timers_ok s1" using tw by simp
    then have "length (countdown_ticks s1) \<le> 1" by (rule timers_ok_ticks)
    then show ?thesis using tw b by simp
  qed
qed

subsection \<open>The handle discipline holds in every reachable state\<close>

lemma ok_plumbing [simp]:
  "timers_ok s \<Longrightarrow> \<not> is_tick cb \<Longrightarrow> timers_ok (snd (setTimeout cb d s))"
  "timers_ok s \<Longrightarrow> \<not> is_tick cb \<Longrightarrow> timers_ok (snd (setInterval cb d s))"
  "timers_ok s \<Longrightarrow> timers_ok (drop_key k s)"
  "timers_ok s \<Longrightarrow> timers_ok (s\<lparr>nextId := Suc (nextId s)\<rparr>)"
  "timers_ok s \<Longrightarrow> timers_ok (s\<lparr>waitingStateTimeout := None\<rparr>)"
  by (auto simp add: timers_ok_def countdownKey_def timer_defs list_all_iff distinct_map_filter)

lemma ok_animateCountdownToTime [simp]:
  "timers_ok s \<Longrightarrow> timers_ok (animateCountdownToTime T l d s)"
  by (simp add: animateCountdownToTime_def Let_def)

lemma ok_startScheduledCountdown [simp]:
  "timers_ok s \<Longrightarrow> timers_ok (startScheduledCountdown a b s)"
  by (simp add: startScheduledCountdown_def Let_def split: option.splits)

lemma ok_startRoundCountdown [simp]:
  "timers_ok s \<Longrightarrow> timers_ok (startRoundCountdown a b s)"
  by (simp add: startRoundCountdown_def Let_def split: option.splits)

lemma ok_showLastOutcome [simp]: "timers_ok s \<Longrightarrow> timers_ok (showLastOutcome vs s)"
  by (simp add: showLastOutcome_def)

lemma ok_showResult [simp]: "timers_ok s \<Longrightarrow> timers_ok (showResult vs s)"
  by (simp add: showResult_def)

lemma ok_waitingFallback [simp]: "timers_ok s \<Longrightarrow> timers_ok (waitingFallback s)"
  by (simp add: waitingFallback_def Let_def)

lemma ok_updateDiceToValues [simp]:
  "timers_ok s \<Longrightarrow> timers_ok (state_of (updateDiceToValues vs s))"
  by (simp add: updateDiceToValues_cases)

lemma ok_startRolling [simp]: "timers_ok s \<Longrightarrow> timers_ok (state_of (startRolling vs s))"
  by (simp add: startRolling_def rollAllDice_def Let_def)

lemma ok_bind:
  assumes "timers_ok (state_of c)" and "\<And>x. timers_ok x \<Longrightarrow> timers_ok (state_of (f x))"
  shows "timers_ok (state_of (case c of Normal x \<Rightarrow> f x | Threw x \<Rightarrow> Threw x))"
  using assms by (cases c) simp_all

lemma ok_syncRound [simp]: "timers_ok s \<Longrightarrow> timers_ok (state_of (syncRound d s))"
proof (cases d)
  case (SCHEDULED st en tot rem lo now)
  assume "timers_ok s"
  then show ?thesis using SCHEDULED by (simp add: Let_def)
next
  case (STARTED_OR_REVEALED r lo now)
  assume a: "timers_ok s"
  have b: "timers_ok (state_of (case updateDiceToValues vs x of
              Normal s2 \<Rightarrow>
                if now \<ge> round_endAt r then Normal (showResult (targetValues s2) s2)
                else startRolling (targetValues s2) s2
            | Threw s2 \<Rightarrow> Threw s2))" if "timers_ok x" for vs x
    by (rule ok_bind) (simp_all add: that)
  show ?thesis using a STARTED_OR_REVEALED
    by (simp add: Let_def b split: option.splits)
next
  case (IDLE lo now)
  assume "timers_ok s"
  then show ?thesis using IDLE by simp
qed

lemma ok_applySnapshot [simp]:
  assumes "timers_ok s"
  shows "timers_ok (state_of (applySnapshot d s))"
  unfolding applySnapshot_def Let_def
  by (rule ok_bind) (simp_all add: assms updateServerTimeOffset_def)

lemma ok_snapshotSettled [simp]: "timers_ok s \<Longrightarrow> timers_ok (snapshotSettled r s)"
  by (cases r) (simp_all add: snapshotSettled_def Let_def)

lemma ok_on_lastOutcome [simp]:
  assumes "timers_ok s"
  shows "timers_ok (state_of (on_lastOutcome ev s))"
proof (cases ev)
  case None
  then show ?thesis using assms by (simp add: on_lastOutcome_def)
next
  case (Some d)
  have "timers_ok (state_of (case updateDiceToValues (loe_diceValues d)
           ((updateServerTimeOffset (loe_serverNow d) s)
              \<lparr>targetValues := loe_diceValues d, currentRoundId := loe_roundId d\<rparr>) of
                Normal s3 \<Rightarrow>
                  if gameState s3 = Idle
                     \<or> (gameState s3 = Waiting \<and> \<not> truthy (scheduledEndAt s3))
                  then Normal (showLastOutcome (loe_diceValues d) s3)
                  else Normal s3
              | Threw s3 \<Rightarrow> Threw s3))"
    by (rule ok_bind) (simp_all add: assms updateServerTimeOffset_def)
  then show ?thesis using Some by (simp add: on_lastOutcome_def Let_def)
qed

lemma ok_listeners [simp]:
  "timers_ok s \<Longrightarrow> timers_ok (on_roundScheduled e1 s)"
  "timers_ok s \<Longrightarrow> timers_ok (on_roundStarted e2 s)"
  "timers_ok s \<Longrightarrow> timers_ok (state_of (on_roundResult e3 s))"
  "timers_ok s \<Longrightarrow> timers_ok (on_roundCancelled e4 s)"
  by (simp_all add: on_roundScheduled_def on_roundStarted_def on_roundResult_def
      on_roundCancelled_def Let_def updateServerTimeOffset_def split: option.splits)

lemma ok_connectSSE [simp]: "timers_ok s \<Longrightarrow> timers_ok (connectSSE s)"
  by (auto simp add: connectSSE_def updateConnectionStatus_def Let_def timers_ok_def
      countdownKey_def list_all_iff)

lemma ok_transport [simp]:
  "timers_ok s \<Longrightarrow> timers_ok (set_readyState i r s)"
  "timers_ok s \<Longrightarrow> timers_ok (updateConnectionStatus c m s)"
  "timers_ok s \<Longrightarrow> timers_ok (fetchSnapshotAndSync s)"
  by (simp_all add: set_readyState_def updateConnectionStatus_def fetchSnapshotAndSync_def)

lemma ok_reconnect [simp]: "timers_ok s \<Longrightarrow> timers_ok (reconnect s)"
  by (simp add: reconnect_def Let_def split: option.splits)

lemma ok_scheduleReconnect [simp]: "timers_ok s \<Longrightarrow> timers_ok (scheduleReconnect s)"
  by (simp add: scheduleReconnect_def Let_def)

lemma ok_startPeriodicTimeSync [simp]: "timers_ok s \<Longrightarrow> timers_ok (startPeriodicTimeSync s)"
proof -
  assume a: "timers_ok s"
  have "timers_ok (snd (setInterval TimeSyncTick 30000 x))" if "timers_ok x" for x
    using that by simp
  then show ?thesis using a
    by (simp add: startPeriodicTimeSync_def Let_def split_beta clearInterval_def split: option.splits)
qed

lemma ok_on_open [simp]: "timers_ok s \<Longrightarrow> timers_ok (on_open s)"
  by (simp add: on_open_def)

lemma ok_on_error [simp]: "timers_ok s \<Longrightarrow> timers_ok (on_error s)"
  by (simp add: on_error_def Let_def)

lemma ok_onVisibilityChange [simp]: "timers_ok s \<Longrightarrow> timers_ok (onVisibilityChange s)"
  by (simp add: onVisibilityChange_def)

lemma ok_runCallback [simp]: "timers_ok s \<Longrightarrow> timers_ok (runCallback cb s)"
  by (cases cb) (simp_all add: runCallback_def)

lemma ok_fireTimer [simp]: "timers_ok s \<Longrightarrow> timers_ok (fireTimer k s)"
  by (simp add: fireTimer_def split: option.splits)

lemma ok_handle: "timers_ok s \<Longrightarrow> timers_ok (handle e s)"
  by (cases e) (simp_all add: updateServerTimeOffset_def split: option.splits)

lemma ok_step: "timers_ok s \<Longrightarrow> timers_ok (step te s)"
  by (simp add: step_def Let_def ok_handle)

lemma ok_run: "timers_ok s \<Longrightarrow> timers_ok (run tes s)"
  by (induction tes arbitrary: s) (simp_all add: ok_step)

lemma ok_initial: "timers_ok initial"
  by (simp add: timers_ok_def initial_def)

subsection \<open>Snapshot idempotence\<close>

text \<open>
  Claim C4. In any state \<open>s\<close> that a sequence of events reaches from the initial one, let
  a SCHEDULED snapshot be applied, and the identical snapshot be applied again to the
  result (at any local time \<open>t2\<close>: the server time of both applications is the snapshot's
  \<^verbatim>\<open>serverNow\<close>). The second application leaves everything the page shows as the first
  left it; the pending countdown callback, with its target, label and duration, is the
  same; never more than one countdown callback is pending.
\<close>

theorem scheduled_snapshot_idempotent:
  assumes s: "s = run tes initial"
    and d: "d = SCHEDULED startAt endAt totalMs remainingMs lo now"
    and s1: "s1 = state_of (applySnapshot d s)"
    and s2: "s2 = state_of (applySnapshot d (s1\<lparr>dateNow := t2\<rparr>))"
  shows "display s2 = display s1
         \<and> countdown_ticks s2 = countdown_ticks s1
         \<and> length (countdown_ticks s1) \<le> 1 \<and> length (countdown_ticks s2) \<le> 1
         \<and> getServerTime s1 = now \<and> getServerTime s2 = now"
proof -
  have ok: "timers_ok s" unfolding s by (rule ok_run) (rule ok_initial)
  have "display s2 = display s1
         \<and> countdown_ticks s2 = countdown_ticks s1
         \<and> length (countdown_ticks s2) \<le> 1
         \<and> getServerTime s1 = now \<and> getServerTime s2 = now"
    using ok d s1 s2 by (rule scheduled_twice_under_discipline)
  then show ?thesis by auto
qed

text \<open>
  The snapshot of the example round, applied twice after the stream has opened: the
  countdown towards 5000 is installed once.
\<close>

theorem scheduled_snapshot_idempotent_witness:
  "gameState (state_of (applySnapshot scheduled_snapshot (run opened_trace initial))) = Countdown
   \<and> countdown_ticks (state_of (applySnapshot scheduled_snapshot (run opened_trace initial)))
        = [CountdownTick 5000 ''Round starting in'' 5000]
   \<and> display (state_of (applySnapshot scheduled_snapshot
        ((state_of (applySnapshot scheduled_snapshot (run opened_trace initial)))\<lparr>dateNow := 700\<rparr>)))
       = display (state_of (applySnapshot scheduled_snapshot (run opened_trace initial)))
   \<and> countdown_ticks (state_of (applySnapshot scheduled_snapshot
        ((state_of (applySnapshot scheduled_snapshot (run opened_trace initial)))\<lparr>dateNow := 700\<rparr>)))
       = [CountdownTick 5000 ''Round starting in'' 5000]"
proof -
  have g: "gameState (state_of (applySnapshot scheduled_snapshot (run opened_trace initial))) = Countdown"
    by code_simp
  have t: "countdown_ticks (state_of (applySnapshot scheduled_snapshot (run opened_trace initial)))
        = [CountdownTick 5000 ''Round starting in'' 5000]"
    by code_simp
  show ?thesis
    using g t scheduled_snapshot_idempotent [OF refl scheduled_snapshot_def refl refl,
        where tes = opened_trace and ?t2.0 = 700]
    by simp
qed

subsection \<open>Cancellation suppression\<close>

lemma threw_updateDiceToValues:
  "threw (updateDiceToValues vs s) = snd (set_targets vs 0 (diceTargets s))"
  by (simp add: updateDiceToValues_cases)

lemma getServerTime_update [simp]:
  "getServerTime (s\<lparr>gameState := v1\<rparr>) = getServerTime s"
  "getServerTime (s\<lparr>scheduledStartAt := v2\<rparr>) = getServerTime s"
  "getServerTime (s\<lparr>scheduledEndAt := v3\<rparr>) = getServerTime s"
  "getServerTime (s\<lparr>countdownTotalMs := v4\<rparr>) = getServerTime s"
  "getServerTime (s\<lparr>cancelledUntil := v5\<rparr>) = getServerTime s"
  "getServerTime (s\<lparr>isFetchingSnapshot := v6\<rparr>) = getServerTime s"
  "getServerTime (s\<lparr>timeSyncInterval := v7\<rparr>) = getServerTime s"
  "getServerTime (s\<lparr>eventSource := v8\<rparr>) = getServerTime s"
  "getServerTime (s\<lparr>reconnectAttempts := v9\<rparr>) = getServerTime s"
  "getServerTime (s\<lparr>isConnected := v10\<rparr>) = getServerTime s"
  "getServerTime (s\<lparr>targetValues := v11\<rparr>) = getServerTime s"
  "getServerTime (s\<lparr>currentRoundId := v12\<rparr>) = getServerTime s"
  "getServerTime (s\<lparr>diceTargets := v13\<rparr>) = getServerTime s"
  "getServerTime (s\<lparr>rollCount := v14\<rparr>) = getServerTime s"
  "getServerTime (s\<lparr>connectionText := v15\<rparr>) = getServerTime s"
  "getServerTime (s\<lparr>statusText := v16\<rparr>) = getServerTime s"
  "getServerTime (s\<lparr>countdownText := v17\<rparr>) = getServerTime s"
  "getServerTime (s\<lparr>strokeDashoffset := v18\<rparr>) = getServerTime s"
  "getServerTime (s\<lparr>stroke := v19\<rparr>) = getServerTime s"
  "getServerTime (s\<lparr>gameOverlayHidden := v20\<rparr>) = getServerTime s"
  "getServerTime (s\<lparr>resultOverlayVisible := v21\<rparr>) = getServerTime s"
  "getServerTime (s\<lparr>resultSymbols := v22\<rparr>) = getServerTime s"
  "getServerTime (s\<lparr>resultLabel := v23\<rparr>) = getServerTime s"
  "getServerTime (s\<lparr>nextRoundText := v24\<rparr>) = getServerTime s"
  "getServerTime (s\<lparr>documentHidden := v25\<rparr>) = getServerTime s"
  "getServerTime (s\<lparr>sources := v26\<rparr>) = getServerTime s"
  "getServerTime (s\<lparr>snapshotRequests := v27\<rparr>) = getServerTime s"
  "getServerTime (s\<lparr>countdownHandle := v28\<rparr>) = getServerTime s"
  "getServerTime (s\<lparr>countdownHandleMode := v29\<rparr>) = getServerTime s"
  "getServerTime (s\<lparr>waitingStateTimeout := v30\<rparr>) = getServerTime s"
  "getServerTime (s\<lparr>pending := v31\<rparr>) = getServerTime s"
  "getServerTime (s\<lparr>nextId := v32\<rparr>) = getServerTime s"
  by (simp_all add: getServerTime_def)

lemma handle_leaf [simp]:
  "countdownHandle (clearCountdownFrame s) = None"
  "countdownHandle (clearWaitingTimeout s) = countdownHandle s"
  "countdownHandle (cancelCountdown s) = None"
  "countdownHandle (showWaitingState m s) = countdownHandle s"
  "countdownHandle (queueCountdownFrame T l d s) = Some (nextId s)"
  by (simp_all add: clearCountdownFrame_def clearWaitingTimeout_def cancelCountdown_def
      showWaitingState_def queueCountdownFrame_def timer_defs Let_def split_beta
      split: option.splits)

text \<open>
  Against claim C1 as stated: the round of the example is cancelled at server time 1000,
  which sets the horizon 8000. A \<^verbatim>\<open>round.scheduled\<close> event with \<^verbatim>\<open>startAt = 6000\<close>
  arrives at server time 2000, before the horizon: the display becomes Countdown and a
  countdown towards 6000 is installed.
\<close>

theorem live_schedule_not_suppressed_counterexample:
  "cancelledUntil (run cancelled_trace initial) = Some 8000
   \<and> gameState (run cancelled_trace initial) = Waiting
   \<and> rse_serverNow rescheduled_6000_9000 < 8000
   \<and> rse_startAt rescheduled_6000_9000 \<le> 8000
   \<and> gameState (run (cancelled_trace @ [(2600, RoundScheduledMsg 1 (Some rescheduled_6000_9000))])
         initial) = Countdown
   \<and> countdown_ticks
        (run (cancelled_trace @ [(2600, RoundScheduledMsg 1 (Some rescheduled_6000_9000))]) initial)
       = [CountdownTick 6000 ''Round starting in'' 4000]"
  by code_simp

text \<open>
  Claim C1, amended. In a reachable state inside a cancellation window, a SCHEDULED
  snapshot (whose last outcome positions the dice without throwing) leaves the display at
  Waiting with the text "Waiting for next round...", clears the countdown handle, leaves
  no countdown callback pending and keeps the horizon. A live \<^verbatim>\<open>round.scheduled\<close> event
  is not suppressed: its listener clears the horizon first, and for a non-zero
  \<^verbatim>\<open>startAt\<close> with time remaining it enters Countdown and installs one countdown towards
  \<^verbatim>\<open>serverNow + remaining\<close>.
\<close>

theorem cancellation_suppression_snapshot_only:
  assumes s: "s = run tes initial"
    and s1: "s1 = state_of (applySnapshot (SCHEDULED st en tot rem lo now) s)"
    and s2: "s2 = on_roundScheduled (Some d) s"
    and r: "r = nullish (rse_remainingMs d) (max 0 (rse_startAt d - rse_serverNow d))"
  shows "(snapshotInCancelledWindow now s \<and> \<not> threw (updateDiceToValues (lo_diceValues lo) s)
            \<longrightarrow> gameState s1 = Waiting \<and> statusText s1 = ''Waiting for next round...''
                \<and> countdownHandle s1 = None \<and> countdown_ticks s1 = []
                \<and> cancelledUntil s1 = cancelledUntil s)
         \<and> cancelledUntil s2 = None
         \<and> (rse_startAt d \<noteq> 0 \<and> 0 < r
            \<longrightarrow> gameState s2 = Countdown \<and> countdownHandle s2 = Some (nextId s)
                \<and> (\<exists>dur. countdown_ticks s2
                      = [CountdownTick (rse_serverNow d + r) ''Round starting in'' dur]))"
proof -
  have ok: "timers_ok s" unfolding s by (rule ok_run) (rule ok_initial)
  have a: "gameState s1 = Waiting \<and> statusText s1 = ''Waiting for next round...''
                \<and> countdownHandle s1 = None \<and> countdown_ticks s1 = []
                \<and> cancelledUntil s1 = cancelledUntil s"
    if w: "snapshotInCancelledWindow now s"
      and n: "\<not> threw (updateDiceToValues (lo_diceValues lo) s)"
  proof -
    have n': "\<not> snd (set_targets (lo_diceValues lo) 0 (diceTargets s))"
      using n by (simp add: threw_updateDiceToValues)
    show ?thesis using w n' ok unfolding s1
      by (simp add: applySnapshot_def updateDiceToValues_cases Let_def window_alt
          updateServerTimeOffset_def)
  qed
  define x where "x = (updateServerTimeOffset (rse_serverNow d) s)
       \<lparr>cancelledUntil := None, scheduledStartAt := Some (rse_startAt d),
        scheduledEndAt := Some (rse_endAt d)\<rparr>"
  have okx: "timers_ok x" using ok by (simp add: x_def updateServerTimeOffset_def)
  have s2x: "s2 = startScheduledCountdown (rse_totalMs d) (rse_remainingMs d) x"
    by (simp add: s2 on_roundScheduled_def Let_def x_def)
  have b: "cancelledUntil s2 = None"
    unfolding s2x
    by (simp add: startScheduledCountdown_def animateCountdownToTime_def Let_def x_def
        updateServerTimeOffset_def split: option.splits)
  have c: "gameState s2 = Countdown \<and> countdownHandle s2 = Some (nextId s)
                \<and> (\<exists>dur. countdown_ticks s2
                      = [CountdownTick (rse_serverNow d + r) ''Round starting in'' dur])"
    if "rse_startAt d \<noteq> 0" "0 < r"
  proof -
    have t: "getServerTime x = rse_serverNow d"
      by (simp add: x_def updateServerTimeOffset_def getServerTime_def)
    have st: "scheduledStartAt x = Some (rse_startAt d)" "cancelledUntil x = None"
      by (simp_all add: x_def updateServerTimeOffset_def)
    have r': "nullish (rse_remainingMs d) (max 0 (rse_startAt d - rse_serverNow d)) = r"
      by (simp add: r)
    have nx: "nextId x = nextId s" by (simp add: x_def updateServerTimeOffset_def)
    show ?thesis
      using that okx nx unfolding s2x
      by (simp add: startScheduledCountdown_def st t r' window_alt Let_def animate_running
          countdown_remaining_def)
  qed
  show ?thesis using a b c by blast
qed

text \<open>
  After the cancellation of the example: the snapshot of a new round is suppressed, the
  live event is not.
\<close>

theorem cancellation_suppression_snapshot_only_witness:
  "snapshotInCancelledWindow 2000 (run cancelled_trace initial)
   \<and> \<not> threw (updateDiceToValues (lo_diceValues outcome_123456) (run cancelled_trace initial))
   \<and> gameState (state_of (applySnapshot (SCHEDULED 6000 9000 None None outcome_123456 2000)
                    (run cancelled_trace initial))) = Waiting
   \<and> countdown_ticks (state_of (applySnapshot (SCHEDULED 6000 9000 None None outcome_123456 2000)
                    (run cancelled_trace initial))) = []
   \<and> rse_startAt rescheduled_6000_9000 \<noteq> 0
   \<and> gameState (on_roundScheduled (Some rescheduled_6000_9000) (run cancelled_trace initial))
        = Countdown"
proof -
  have a: "snapshotInCancelledWindow 2000 (run cancelled_trace initial)" by code_simp
  have b: "\<not> threw (updateDiceToValues (lo_diceValues outcome_123456) (run cancelled_trace initial))"
    by code_simp
  have c: "rse_startAt rescheduled_6000_9000 \<noteq> 0" by code_simp
  have d: "0 < nullish (rse_remainingMs rescheduled_6000_9000)
                  (max 0 (rse_startAt rescheduled_6000_9000 - rse_serverNow rescheduled_6000_9000))"
    by code_simp
  show ?thesis
    using a b c d cancellation_suppression_snapshot_only [OF refl refl refl refl,
        where tes = cancelled_trace and st = 6000 and en = 9000 and tot = None and rem = None and lo = outcome_123456
          and now = 2000 and d = rescheduled_6000_9000]
    by simp
qed

subsection \<open>A snapshot of a cancelled round\<close>

text \<open>
  Against claim C5 as stated: inside the cancellation window that the live cancellation
  of the example opened, a STARTED_OR_REVEALED snapshot with an empty \<^verbatim>\<open>diceValues\<close>
  array shows Waiting with the text "Round cancelled", where the live event shows
  "Waiting for next round...".
\<close>

theorem cancelled_snapshot_text_counterexample:
  "snapshotRequests (run cancelled_trace initial) = 1
   \<and> cancelledUntil (run cancelled_trace initial) = Some 8000
   \<and> round_diceValues cancelled_round = Some []
   \<and> gameState (run (cancelled_trace
        @ [(1700, SnapshotSettled (FetchOk (STARTED_OR_REVEALED cancelled_round outcome_123456 1000)))])
        initial) = Waiting
   \<and> statusText (run (cancelled_trace
        @ [(1700, SnapshotSettled (FetchOk (STARTED_OR_REVEALED cancelled_round outcome_123456 1000)))])
        initial) = ''Round cancelled''
   \<and> statusText (run (cancelled_trace @ [(1700, RoundCancelledMsg 1 (Some cancelled_at_1000))])
        initial) = ''Waiting for next round...''"
  by code_simp

text \<open>
  Claim C5, amended. In a reachable state, a STARTED_OR_REVEALED snapshot whose
  \<^verbatim>\<open>round.diceValues\<close> is the empty array never moves the display to Rolling or Result:
  it ends in Waiting, or, when positioning the dice for its last outcome throws, in the
  state it started from. When nothing throws it shows what a live \<^verbatim>\<open>round.cancelled\<close>
  shows, with no countdown callback pending, except for the text, which is "Round
  cancelled" when a cancellation window is active at \<^verbatim>\<open>serverNow\<close> and "Waiting for next
  round..." as in the live event otherwise.
\<close>

theorem cancelled_snapshot_waits:
  assumes s: "s = run tes initial"
    and r: "round_diceValues r = Some []"
    and s1: "s1 = state_of (applySnapshot (STARTED_OR_REVEALED r lo now) s)"
    and s2: "s2 = on_roundCancelled (Some c) s"
  shows "(gameState s1 = Waiting
           \<or> threw (updateDiceToValues (lo_diceValues lo) s) \<and> gameState s1 = gameState s)
         \<and> gameState s2 = Waiting \<and> statusText s2 = ''Waiting for next round...''
         \<and> countdown_ticks s2 = []
         \<and> (\<not> threw (updateDiceToValues (lo_diceValues lo) s) \<longrightarrow>
               gameState s1 = Waiting
               \<and> statusText s1 = (if snapshotInCancelledWindow now s then ''Round cancelled''
                                  else ''Waiting for next round...'')
               \<and> display s1 = display (s2\<lparr>statusText := statusText s1\<rparr>)
               \<and> countdown_ticks s1 = [])"
proof -
  have ok: "timers_ok s" unfolding s by (rule ok_run) (rule ok_initial)
  have a: "gameState s2 = Waiting \<and> statusText s2 = ''Waiting for next round...''
         \<and> countdown_ticks s2 = []"
    using ok unfolding s2
    by (simp add: on_roundCancelled_def Let_def updateServerTimeOffset_def)
  have d2: "display s2 = (Waiting, ''Waiting for next round...'', Dots, 0, ''#4ade80'', False, False,
       resultSymbols s, resultLabel s, nextRoundText s)"
    unfolding s2
    by (simp add: on_roundCancelled_def Let_def updateServerTimeOffset_def display_def)
  have b: "gameState s1 = gameState s" if t: "threw (updateDiceToValues (lo_diceValues lo) s)"
  proof -
    have "snd (set_targets (lo_diceValues lo) 0 (diceTargets s))"
      using t by (simp add: threw_updateDiceToValues)
    then show ?thesis unfolding s1
      by (simp add: applySnapshot_def updateDiceToValues_cases Let_def updateServerTimeOffset_def)
  qed
  have c: "gameState s1 = Waiting
               \<and> statusText s1 = (if snapshotInCancelledWindow now s then ''Round cancelled''
                                  else ''Waiting for next round...'')
               \<and> display s1 = display (s2\<lparr>statusText := statusText s1\<rparr>)
               \<and> countdown_ticks s1 = []"
    if n: "\<not> threw (updateDiceToValues (lo_diceValues lo) s)"
  proof -
    have n': "\<not> snd (set_targets (lo_diceValues lo) 0 (diceTargets s))"
      using n by (simp add: threw_updateDiceToValues)
    have e: "gameState s1 = Waiting
               \<and> statusText s1 = (if snapshotInCancelledWindow now s then ''Round cancelled''
                                  else ''Waiting for next round...'')
               \<and> countdown_ticks s1 = []
          \<and> display s1 = (Waiting, statusText s1, Dots, 0, ''#4ade80'', False, False,
       resultSymbols s, resultLabel s, nextRoundText s)"
      using n' ok r unfolding s1
      by (simp add: applySnapshot_def updateDiceToValues_cases Let_def window_alt
          updateServerTimeOffset_def display_def)
    have "display (s2\<lparr>statusText := statusText s1\<rparr>) =
       (Waiting, statusText s1, Dots, 0, ''#4ade80'', False, False,
       resultSymbols s, resultLabel s, nextRoundText s)"
      using d2 by (simp add: display_def)
    then show ?thesis using e by simp
  qed
  show ?thesis using a b c by blast
qed

text \<open>
  During the countdown of the example no cancellation window is active: the snapshot and
  the live event show the same.
\<close>

theorem cancelled_snapshot_waits_witness:
  "round_diceValues cancelled_round = Some []
   \<and> \<not> threw (updateDiceToValues (lo_diceValues outcome_123456) (run scheduled_trace initial))
   \<and> \<not> snapshotInCancelledWindow 1000 (run scheduled_trace initial)
   \<and> display (state_of (applySnapshot (STARTED_OR_REVEALED cancelled_round outcome_123456 1000)
                 (run scheduled_trace initial)))
       = display (on_roundCancelled (Some cancelled_at_1000) (run scheduled_trace initial))
   \<and> gameState (state_of (applySnapshot (STARTED_OR_REVEALED cancelled_round outcome_123456 1000)
                 (run scheduled_trace initial))) = Waiting"
proof -
  have r: "round_diceValues cancelled_round = Some []" by (simp add: cancelled_round_def)
  have b: "\<not> threw (updateDiceToValues (lo_diceValues outcome_123456) (run scheduled_trace initial))"
    by code_simp
  have w: "\<not> snapshotInCancelledWindow 1000 (run scheduled_trace initial)" by code_simp
  define s1 where "s1 = state_of (applySnapshot
      (STARTED_OR_REVEALED cancelled_round outcome_123456 1000) (run scheduled_trace initial))"
  define s2 where "s2 = on_roundCancelled (Some cancelled_at_1000) (run scheduled_trace initial)"
  have t: "gameState s1 = Waiting \<and> statusText s2 = ''Waiting for next round...''
      \<and> statusText s1 = ''Waiting for next round...''
      \<and> display s1 = display (s2\<lparr>statusText := statusText s1\<rparr>)"
    using b w cancelled_snapshot_waits [OF refl r s1_def s2_def] by simp
  then have e: "s2\<lparr>statusText := statusText s1\<rparr> = s2" by simp
  have "display s1 = display (s2\<lparr>statusText := statusText s1\<rparr>)" using t by blast
  then have "display s1 = display s2" unfolding e .
  then show ?thesis using r b w t by (simp add: s1_def s2_def)
qed

subsection \<open>Reconnect backoff and terminal failure\<close>

lemma nc_update [simp]:
  "no_reconnect_armed (s\<lparr>gameState := v1\<rparr>) = no_reconnect_armed s"
  "no_reconnect_armed (s\<lparr>scheduledStartAt := v2\<rparr>) = no_reconnect_armed s"
  "no_reconnect_armed (s\<lparr>scheduledEndAt := v3\<rparr>) = no_reconnect_armed s"
  "no_reconnect_armed (s\<lparr>countdownTotalMs := v4\<rparr>) = no_reconnect_armed s"
  "no_reconnect_armed (s\<lparr>cancelledUntil := v5\<rparr>) = no_reconnect_armed s"
  "no_reconnect_armed (s\<lparr>isFetchingSnapshot := v6\<rparr>) = no_reconnect_armed s"
  "no_reconnect_armed (s\<lparr>timeSyncInterval := v7\<rparr>) = no_reconnect_armed s"
  "no_reconnect_armed (s\<lparr>eventSource := v8\<rparr>) = no_reconnect_armed s"
  "no_reconnect_armed (s\<lparr>reconnectAttempts := v9\<rparr>) = no_reconnect_armed s"
  "no_reconnect_armed (s\<lparr>isConnected := v10\<rparr>) = no_reconnect_armed s"
  "no_reconnect_armed (s\<lparr>serverTimeOffset := v11\<rparr>) = no_reconnect_armed s"
  "no_reconnect_armed (s\<lparr>targetValues := v12\<rparr>) = no_reconnect_armed s"
  "no_reconnect_armed (s\<lparr>currentRoundId := v13\<rparr>) = no_reconnect_armed s"
  "no_reconnect_armed (s\<lparr>diceTargets := v14\<rparr>) = no_reconnect_armed s"
  "no_reconnect_armed (s\<lparr>rollCount := v15\<rparr>) = no_reconnect_armed s"
  "no_reconnect_armed (s\<lparr>connectionText := v16\<rparr>) = no_reconnect_armed s"
  "no_reconnect_armed (s\<lparr>statusText := v17\<rparr>) = no_reconnect_armed s"
  "no_reconnect_armed (s\<lparr>countdownText := v18\<rparr>) = no_reconnect_armed s"
  "no_reconnect_armed (s\<lparr>strokeDashoffset := v19\<rparr>) = no_reconnect_armed s"
  "no_reconnect_armed (s\<lparr>stroke := v20\<rparr>) = no_reconnect_armed s"
  "no_reconnect_armed (s\<lparr>gameOverlayHidden := v21\<rparr>) = no_reconnect_armed s"
  "no_reconnect_armed (s\<lparr>resultOverlayVisible := v22\<rparr>) = no_reconnect_armed s"
  "no_reconnect_armed (s\<lparr>resultSymbols := v23\<rparr>) = no_reconnect_armed s"
  "no_reconnect_armed (s\<lparr>resultLabel := v24\<rparr>) = no_reconnect_armed s"
  "no_reconnect_armed (s\<lparr>nextRoundText := v25\<rparr>) = no_reconnect_armed s"
  "no_reconnect_armed (s\<lparr>dateNow := v26\<rparr>) = no_reconnect_armed s"
  "no_reconnect_armed (s\<lparr>documentHidden := v27\<rparr>) = no_reconnect_armed s"
  "no_reconnect_armed (s\<lparr>sources := v28\<rparr>) = no_reconnect_armed s"
  "no_reconnect_armed (s\<lparr>snapshotRequests := v29\<rparr>) = no_reconnect_armed s"
  "no_reconnect_armed (s\<lparr>countdownHandle := v30\<rparr>) = no_reconnect_armed s"
  "no_reconnect_armed (s\<lparr>countdownHandleMode := v31\<rparr>) = no_reconnect_armed s"
  "no_reconnect_armed (s\<lparr>waitingStateTimeout := v32\<rparr>) = no_reconnect_armed s"
  "no_reconnect_armed (s\<lparr>nextId := v33\<rparr>) = no_reconnect_armed s"
  by (simp_all add: no_reconnect_armed_def)

lemma nc_plumbing [simp]:
  "no_reconnect_armed s \<Longrightarrow> cb \<noteq> ConnectSSE \<Longrightarrow> no_reconnect_armed (snd (setTimeout cb d s))"
  "no_reconnect_armed s \<Longrightarrow> cb \<noteq> ConnectSSE \<Longrightarrow> no_reconnect_armed (snd (requestAnimationFrame cb s))"
  "no_reconnect_armed s \<Longrightarrow> no_reconnect_armed (drop_key k s)"
  by (auto simp add: no_reconnect_armed_def timer_defs list_all_iff)

lemma nc_leaf [simp]:
  "no_reconnect_armed s \<Longrightarrow> no_reconnect_armed (clearCountdownFrame s)"
  "no_reconnect_armed s \<Longrightarrow> no_reconnect_armed (clearWaitingTimeout s)"
  by (simp_all add: clearCountdownFrame_def clearWaitingTimeout_def clearTimeout_def
      cancelAnimationFrame_def Let_def split: option.splits)

lemma nc_leaf2 [simp]:
  "no_reconnect_armed s \<Longrightarrow> no_reconnect_armed (cancelCountdown s)"
  "no_reconnect_armed s \<Longrightarrow> no_reconnect_armed (queueCountdownFrame T l d s)"
  "no_reconnect_armed s \<Longrightarrow> no_reconnect_armed (showWaitingState m s)"
  "no_reconnect_armed s \<Longrightarrow> no_reconnect_armed (showLastOutcome vs s)"
  "no_reconnect_armed s \<Longrightarrow> no_reconnect_armed (showResult vs s)"
  by (simp_all add: cancelCountdown_def queueCountdownFrame_def showWaitingState_def
      showLastOutcome_def showResult_def Let_def split_beta)

lemma nc_game [simp]:
  "no_reconnect_armed s \<Longrightarrow> no_reconnect_armed (animateCountdownToTime T l d s)"
  "no_reconnect_armed s \<Longrightarrow> no_reconnect_armed (waitingFallback s)"
  "no_reconnect_armed s \<Longrightarrow> no_reconnect_armed (state_of (updateDiceToValues vs s))"
  "no_reconnect_armed s \<Longrightarrow> no_reconnect_armed (state_of (startRolling vs s))"
  "no_reconnect_armed s \<Longrightarrow> no_reconnect_armed (fetchSnapshotAndSync s)"
  by (simp_all add: animateCountdownToTime_def waitingFallback_def updateDiceToValues_cases
      startRolling_def rollAllDice_def fetchSnapshotAndSync_def Let_def)

lemma nc_countdowns [simp]:
  "no_reconnect_armed s \<Longrightarrow> no_reconnect_armed (startScheduledCountdown a b s)"
  "no_reconnect_armed s \<Longrightarrow> no_reconnect_armed (startRoundCountdown a b s)"
  by (simp_all add: startScheduledCountdown_def startRoundCountdown_def Let_def
      split: option.splits)

lemma nc_bind:
  assumes "no_reconnect_armed (state_of c)"
    and "\<And>x. no_reconnect_armed x \<Longrightarrow> no_reconnect_armed (state_of (f x))"
  shows "no_reconnect_armed (state_of (case c of Normal x \<Rightarrow> f x | Threw x \<Rightarrow> Threw x))"
  using assms by (cases c) simp_all

lemma nc_syncRound [simp]:
  "no_reconnect_armed s \<Longrightarrow> no_reconnect_armed (state_of (syncRound d s))"
proof (cases d)
  case (SCHEDULED st en tot rem lo now)
  assume "no_reconnect_armed s"
  then show ?thesis using SCHEDULED by (simp add: Let_def)
next
  case (STARTED_OR_REVEALED r lo now)
  assume a: "no_reconnect_armed s"
  have b: "no_reconnect_armed (state_of (case updateDiceToValues vs x of
              Normal s2 \<Rightarrow>
                if now \<ge> round_endAt r then Normal (showResult (targetValues s2) s2)
                else startRolling (targetValues s2) s2
            | Threw s2 \<Rightarrow> Threw s2))" if "no_reconnect_armed x" for vs x
    by (rule nc_bind) (simp_all add: that)
  show ?thesis using a STARTED_OR_REVEALED
    by (simp add: Let_def b split: option.splits)
next
  case (IDLE lo now)
  assume "no_reconnect_armed s"
  then show ?thesis using IDLE by simp
qed

lemma nc_applySnapshot [simp]:
  assumes "no_reconnect_armed s"
  shows "no_reconnect_armed (state_of (applySnapshot d s))"
  unfolding applySnapshot_def Let_def
  by (rule nc_bind) (simp_all add: assms updateServerTimeOffset_def)

lemma nc_snapshotSettled [simp]:
  "no_reconnect_armed s \<Longrightarrow> no_reconnect_armed (snapshotSettled r s)"
  by (cases r) (simp_all add: snapshotSettled_def Let_def)









subsection \<open>One live link\<close>

lemma rw_update [simp]:
  "reconnects_within K (s\<lparr>gameState := v1\<rparr>) = reconnects_within K s"
  "reconnects_within K (s\<lparr>scheduledStartAt := v2\<rparr>) = reconnects_within K s"
  "reconnects_within K (s\<lparr>scheduledEndAt := v3\<rparr>) = reconnects_within K s"
  "reconnects_within K (s\<lparr>countdownTotalMs := v4\<rparr>) = reconnects_within K s"
  "reconnects_within K (s\<lparr>cancelledUntil := v5\<rparr>) = reconnects_within K s"
  "reconnects_within K (s\<lparr>isFetchingSnapshot := v6\<rparr>) = reconnects_within K s"
  "reconnects_within K (s\<lparr>timeSyncInterval := v7\<rparr>) = reconnects_within K s"
  "reconnects_within K (s\<lparr>eventSource := v8\<rparr>) = reconnects_within K s"
  "reconnects_within K (s\<lparr>reconnectAttempts := v9\<rparr>) = reconnects_within K s"
  "reconnects_within K (s\<lparr>isConnected := v10\<rparr>) = reconnects_within K s"
  "reconnects_within K (s\<lparr>serverTimeOffset := v11\<rparr>) = reconnects_within K s"
  "reconnects_within K (s\<lparr>targetValues := v12\<rparr>) = reconnects_within K s"
  "reconnects_within K (s\<lparr>currentRoundId := v13\<rparr>) = reconnects_within K s"
  "reconnects_within K (s\<lparr>diceTargets := v14\<rparr>) = reconnects_within K s"
  "reconnects_within K (s\<lparr>rollCount := v15\<rparr>) = reconnects_within K s"
  "reconnects_within K (s\<lparr>connectionText := v16\<rparr>) = reconnects_within K s"
  "reconnects_within K (s\<lparr>statusText := v17\<rparr>) = reconnects_within K s"
  "reconnects_within K (s\<lparr>countdownText := v18\<rparr>) = reconnects_within K s"
  "reconnects_within K (s\<lparr>strokeDashoffset := v19\<rparr>) = reconnects_within K s"
  "reconnects_within K (s\<lparr>stroke := v20\<rparr>) = reconnects_within K s"
  "reconnects_within K (s\<lparr>gameOverlayHidden := v21\<rparr>) = reconnects_within K s"
  "reconnects_within K (s\<lparr>resultOverlayVisible := v22\<rparr>) = reconnects_within K s"
  "reconnects_within K (s\<lparr>resultSymbols := v23\<rparr>) = reconnects_within K s"
  "reconnects_within K (s\<lparr>resultLabel := v24\<rparr>) = reconnects_within K s"
  "reconnects_within K (s\<lparr>nextRoundText := v25\<rparr>) = reconnects_within K s"
  "reconnects_within K (s\<lparr>dateNow := v26\<rparr>) = reconnects_within K s"
  "reconnects_within K (s\<lparr>documentHidden := v27\<rparr>) = reconnects_within K s"
  "reconnects_within K (s\<lparr>sources := v28\<rparr>) = reconnects_within K s"
  "reconnects_within K (s\<lparr>snapshotRequests := v29\<rparr>) = reconnects_within K s"
  "reconnects_within K (s\<lparr>countdownHandle := v30\<rparr>) = reconnects_within K s"
  "reconnects_within K (s\<lparr>countdownHandleMode := v31\<rparr>) = reconnects_within K s"
  "reconnects_within K (s\<lparr>waitingStateTimeout := v32\<rparr>) = reconnects_within K s"
  "reconnects_within K (s\<lparr>nextId := v33\<rparr>) = reconnects_within K s"
  by (simp_all add: reconnects_within_def)

lemma rw_plumbing [simp]:
  "reconnects_within K s \<Longrightarrow> cb \<noteq> ConnectSSE \<Longrightarrow> reconnects_within K (snd (setTimeout cb d s))"
  "reconnects_within K s \<Longrightarrow> cb \<noteq> ConnectSSE \<Longrightarrow> reconnects_within K (snd (requestAnimationFrame cb s))"
  "reconnects_within K s \<Longrightarrow> reconnects_within K (drop_key k s)"
  by (auto simp add: reconnects_within_def timer_defs list_all_iff)

lemma rw_leaf [simp]:
  "reconnects_within K s \<Longrightarrow> reconnects_within K (clearCountdownFrame s)"
  "reconnects_within K s \<Longrightarrow> reconnects_within K (clearWaitingTimeout s)"
  by (simp_all add: clearCountdownFrame_def clearWaitingTimeout_def clearTimeout_def
      cancelAnimationFrame_def Let_def split: option.splits)

lemma rw_leaf2 [simp]:
  "reconnects_within K s \<Longrightarrow> reconnects_within K (cancelCountdown s)"
  "reconnects_within K s \<Longrightarrow> reconnects_within K (queueCountdownFrame T l d s)"
  "reconnects_within K s \<Longrightarrow> reconnects_within K (showWaitingState m s)"
  "reconnects_within K s \<Longrightarrow> reconnects_within K (showLastOutcome vs s)"
  "reconnects_within K s \<Longrightarrow> reconnects_within K (showResult vs s)"
  by (simp_all add: cancelCountdown_def queueCountdownFrame_def showWaitingState_def
      showLastOutcome_def showResult_def Let_def split_beta)

lemma rw_game [simp]:
  "reconnects_within K s \<Longrightarrow> reconnects_within K (animateCountdownToTime T l d s)"
  "reconnects_within K s \<Longrightarrow> reconnects_within K (waitingFallback s)"
  "reconnects_within K s \<Longrightarrow> reconnects_within K (state_of (updateDiceToValues vs s))"
  "reconnects_within K s \<Longrightarrow> reconnects_within K (state_of (startRolling vs s))"
  "reconnects_within K s \<Longrightarrow> reconnects_within K (fetchSnapshotAndSync s)"
  by (simp_all add: animateCountdownToTime_def waitingFallback_def updateDiceToValues_cases
      startRolling_def rollAllDice_def fetchSnapshotAndSync_def Let_def)

lemma rw_countdowns [simp]:
  "reconnects_within K s \<Longrightarrow> reconnects_within K (startScheduledCountdown a b s)"
  "reconnects_within K s \<Longrightarrow> reconnects_within K (startRoundCountdown a b s)"
  by (simp_all add: startScheduledCountdown_def startRoundCountdown_def Let_def
      split: option.splits)

lemma rw_bind:
  assumes "reconnects_within K (state_of c)"
    and "\<And>x. reconnects_within K x \<Longrightarrow> reconnects_within K (state_of (f x))"
  shows "reconnects_within K (state_of (case c of Normal x \<Rightarrow> f x | Threw x \<Rightarrow> Threw x))"
  using assms by (cases c) simp_all

lemma rw_syncRound [simp]:
  "reconnects_within K s \<Longrightarrow> reconnects_within K (state_of (syncRound d s))"
proof (cases d)
  case (SCHEDULED st en tot rem lo now)
  assume "reconnects_within K s"
  then show ?thesis using SCHEDULED by (simp add: Let_def)
next
  case (STARTED_OR_REVEALED r lo now)
  assume a: "reconnects_within K s"
  have b: "reconnects_within K (state_of (case updateDiceToValues vs x of
              Normal s2 \<Rightarrow>
                if now \<ge> round_endAt r then Normal (showResult (targetValues s2) s2)
                else startRolling (targetValues s2) s2
            | Threw s2 \<Rightarrow> Threw s2))" if "reconnects_within K x" for vs x
    by (rule rw_bind) (simp_all add: that)
  show ?thesis using a STARTED_OR_REVEALED
    by (simp add: Let_def b split: option.splits)
next
  case (IDLE lo now)
  assume "reconnects_within K s"
  then show ?thesis using IDLE by simp
qed

lemma rw_applySnapshot [simp]:
  assumes "reconnects_within K s"
  shows "reconnects_within K (state_of (applySnapshot d s))"
  unfolding applySnapshot_def Let_def
  by (rule rw_bind) (simp_all add: assms updateServerTimeOffset_def)

lemma rw_snapshotSettled [simp]:
  "reconnects_within K s \<Longrightarrow> reconnects_within K (snapshotSettled r s)"
  by (cases r) (simp_all add: snapshotSettled_def Let_def)

lemma rw_on_roundScheduled [simp]:
  "reconnects_within K s \<Longrightarrow> reconnects_within K (on_roundScheduled ev s)"
  by (cases ev) (simp_all add: on_roundScheduled_def Let_def updateServerTimeOffset_def)

lemma rw_on_roundStarted [simp]:
  "reconnects_within K s \<Longrightarrow> reconnects_within K (on_roundStarted ev s)"
  by (cases ev) (simp_all add: on_roundStarted_def Let_def updateServerTimeOffset_def)

lemma rw_on_roundResult [simp]:
  "reconnects_within K s \<Longrightarrow> reconnects_within K (state_of (on_roundResult ev s))"
  by (cases ev) (simp_all add: on_roundResult_def Let_def updateServerTimeOffset_def)

lemma rw_on_roundCancelled [simp]:
  "reconnects_within K s \<Longrightarrow> reconnects_within K (on_roundCancelled ev s)"
  by (cases ev) (simp_all add: on_roundCancelled_def Let_def updateServerTimeOffset_def)

lemma rw_on_lastOutcome [simp]:
  assumes "reconnects_within K s"
  shows "reconnects_within K (state_of (on_lastOutcome ev s))"
proof (cases ev)
  case None
  then show ?thesis using assms by (simp add: on_lastOutcome_def)
next
  case (Some d)
  have "reconnects_within K (state_of (case updateDiceToValues vs x of
          Threw s3 \<Rightarrow> Threw s3
        | Normal s3 \<Rightarrow>
            if gameState s3 = Idle \<or> (gameState s3 = Waiting \<and> \<not> truthy (scheduledEndAt s3))
            then Normal (showLastOutcome vs s3)
            else Normal s3))" if "reconnects_within K x" for vs x
    using rw_game(3) [OF that, of vs] by (cases "updateDiceToValues vs x") simp_all
  then show ?thesis using assms Some
    by (simp add: on_lastOutcome_def Let_def updateServerTimeOffset_def)
qed







lemma single_link_update [simp]:
  "single_link (s\<lparr>isFetchingSnapshot := a\<rparr>) = single_link s"
  "single_link (s\<lparr>snapshotRequests := b\<rparr>) = single_link s"
  "single_link (s\<lparr>dateNow := c\<rparr>) = single_link s"
  "single_link (s\<lparr>documentHidden := d\<rparr>) = single_link s"
  "single_link (s\<lparr>serverTimeOffset := e\<rparr>) = single_link s"
  by (simp_all add: single_link_def connection_failed_def)















end

